theory Spec2Isabelle
  imports Main
begin

section \<open>Paths, formatting and the HDF5 file\<close>

text \<open>
  Paths are Python strings. \<open>join2\<close> is one step of \<^verbatim>\<open>os.path.join\<close> on POSIX: a
  component that starts with a slash replaces what came before, an empty or
  slash-terminated prefix takes the component as it is, otherwise a slash is put between.
\<close>

type_synonym path = string

definition join2 :: "path \<Rightarrow> path \<Rightarrow> path" where
  "join2 a b =
     (if b \<noteq> [] \<and> hd b = CHR ''/'' then b
      else if a = [] \<or> last a = CHR ''/'' then a @ b
      else a @ ''/'' @ b)"

definition join :: "path \<Rightarrow> path list \<Rightarrow> path" where
  "join a ps = foldl join2 a ps"

text \<open>Decimal rendering of a Python int, as an f-string does it.\<close>

fun str_nat :: "nat \<Rightarrow> string" where
  "str_nat n =
     (if n < 10 then [''0123456789'' ! n]
      else str_nat (n div 10) @ [''0123456789'' ! (n mod 10)])"

declare str_nat.simps [simp del]

definition str_int :: "int \<Rightarrow> string" where
  "str_int i = (if i < 0 then ''-'' @ str_nat (nat (- i)) else str_nat (nat i))"

text \<open>
  The HDF5 file is a map from the path of a dataset to its numeric content. The numbers
  themselves are opaque to the scheduling code; they are kept as integer lists.
  \<open>p in f5\<close> of h5py is \<open>f5 p \<noteq> None\<close>.
\<close>

type_synonym array = "int list"
type_synonym hdf5 = "path \<rightharpoonup> array"

datatype key_or_keys = One_key path | Key_list "path list"

text \<open>
  Modelled from the spec: \<open>is_data_in_hdf5\<close> lives in \<^verbatim>\<open>nanoqm/common.py\<close>, which is
  not among the sources. Section 4.1 of the specification gives its contract:
  \<open>exists(key_or_keys)\<close> is true iff every key in the (possibly composite) key set is
  already present.
\<close>

definition is_data_in_hdf5 :: "hdf5 \<Rightarrow> key_or_keys \<Rightarrow> bool" where
  "is_data_in_hdf5 f5 xs =
     (case xs of
        One_key p \<Rightarrow> f5 p \<noteq> None
      | Key_list ps \<Rightarrow> list_all (\<lambda>p. f5 p \<noteq> None) ps)"

datatype error =
  TypeError | IndexError | KeyError | AttributeError | FileNotFoundError | FileExistsError
| SolverFailure

section \<open>nanoqm/schedule/components.py: building the dependency graph\<close>

record JobFiles =
  get_xyz :: path
  get_inp :: path
  get_out :: path
  get_MO :: path

definition create_file_names :: "path \<Rightarrow> int \<Rightarrow> JobFiles" where
  "create_file_names work_dir i =
     \<lparr> get_xyz = join work_dir [''coordinates_'' @ str_int i @ ''.xyz''],
       get_inp = join work_dir [''point_'' @ str_int i @ ''.inp''],
       get_out = join work_dir [''point_'' @ str_int i @ ''.out''],
       get_MO = join work_dir [''mo_coeff_'' @ str_int i @ ''.out''] \<rparr>"

text \<open>
  \<open>dict_input\<close> is the dictionary of one frame. The field \<open>k_idx\<close> is its key \<open>"k"\<close>.
  The last three keys are set in the branch of \<open>calculate_mos\<close> that schedules a job,
  before anything reads them; the record is built there.
\<close>

record dict_input =
  geometry :: string
  k_idx :: int
  node_MOs :: "path list"
  node_energy :: path
  point_dir :: path
  job_files :: JobFiles
  job_name :: string

record config =
  geometries :: "string list"
  project_name :: string
  package_name :: string
  folders :: "path list"
  compute_orbitals_flag :: bool
  calc_new_wf_guess_on_points :: "int list option"
  enumerate_from :: int
  ignore_warnings :: bool

text \<open>
  A promise is a node of the graph that the scheduler evaluates later. \<open>Job\<close> is what
  \<open>prepare_job_cp2k\<close> returns, \<open>Scheduled_check\<close> is a call of the scheduled function
  \<open>schedule_check\<close>.
\<close>

datatype settings_name = cp2k_settings_main | cp2k_settings_guess

datatype promise =
  Job settings_name dict_input "promise option"
| Scheduled_check promise dict_input

text \<open>
  Modelled from the spec: \<open>prepare_job_cp2k\<close> lives in
  \<^verbatim>\<open>nanoqm/schedule/scheduleCP2K.py\<close>, which is not among the sources. Section 3 of the
  specification describes what it builds, the JobDescriptor: the input bundle for one
  solver invocation, made of the frame, the resolved settings (main or guess) and the
  GuessHandle to warm-start from, or none.
\<close>

definition prepare_job_cp2k :: "settings_name \<Rightarrow> dict_input \<Rightarrow> promise option \<Rightarrow> promise" where
  "prepare_job_cp2k settings dict_inp guess = Job settings dict_inp guess"

text \<open>
  \<open>compute_orbitals\<close>. The membership test \<open>k in config.calc_new_wf_guess_on_points\<close>
  raises TypeError when the list is None, whatever \<open>is_restart\<close> is.
\<close>

definition compute_orbitals :: "config \<Rightarrow> dict_input \<Rightarrow> promise option \<Rightarrow> error + promise" where
  "compute_orbitals cfg dict_inp guess =
     (let dict_inp = dict_inp\<lparr>job_files := create_file_names (point_dir dict_inp) (k_idx dict_inp)\<rparr>;
          compute_guess = (calc_new_wf_guess_on_points cfg \<noteq> None);
          is_restart = (guess = None \<and> compute_guess)
      in case calc_new_wf_guess_on_points cfg of
           None \<Rightarrow> Inl TypeError
         | Some points \<Rightarrow>
             (let pred = (k_idx dict_inp \<in> set points \<or> is_restart);
                  guess = (if pred then Some (prepare_job_cp2k cp2k_settings_guess dict_inp guess)
                           else guess)
              in Inr (prepare_job_cp2k cp2k_settings_main dict_inp guess)))"

text \<open>The entries that \<open>calculate_mos\<close> gathers.\<close>

datatype gathered =
  Node_paths "path list"
| Promise_store_MOs promise dict_input
| Promise_store_enery promise dict_input
| None_entry

definition mo_root :: "config \<Rightarrow> int \<Rightarrow> path" where
  "mo_root cfg k = join (project_name cfg) [''point_'' @ str_int k, package_name cfg, ''mo'']"

definition node_MOs_of :: "config \<Rightarrow> int \<Rightarrow> path list" where
  "node_MOs_of cfg k = [join (mo_root cfg k) [''eigenvalues''], join (mo_root cfg k) [''coefficients'']]"

definition node_energy_of :: "config \<Rightarrow> int \<Rightarrow> path" where
  "node_energy_of cfg k = join (mo_root cfg k) [''energy'']"

definition predicate_of :: "config \<Rightarrow> int \<Rightarrow> key_or_keys" where
  "predicate_of cfg k =
     (if compute_orbitals_flag cfg then Key_list (node_MOs_of cfg k)
      else One_key (node_energy_of cfg k))"

definition frame_input :: "config \<Rightarrow> nat \<Rightarrow> string \<Rightarrow> dict_input" where
  "frame_input cfg j gs =
     (let k = int j + enumerate_from cfg in
      \<lparr> geometry = gs, k_idx = k,
        node_MOs = node_MOs_of cfg k, node_energy = node_energy_of cfg k,
        point_dir = folders cfg ! j,
        job_files = create_file_names (folders cfg ! j) k,
        job_name = ''point_'' @ str_int k \<rparr>)"

text \<open>
  One round of the loop of \<open>calculate_mos\<close>, for the \<open>j\<close>-th geometry \<open>gs\<close>. The state
  is the two lists and the current \<open>guess_job\<close>. The model covers runs without a
  cell-parameter file (\<open>file_cell_parameters\<close> is None), where no setting is rewritten.
\<close>

type_synonym mos_state = "gathered list \<times> gathered list \<times> promise option"

definition calculate_mos_step :: "config \<Rightarrow> hdf5 \<Rightarrow> nat \<Rightarrow> string \<Rightarrow> mos_state \<Rightarrow> error + mos_state" where
  "calculate_mos_step cfg f5 j gs st =
     (case st of (orbitals, energies, guess) \<Rightarrow>
        (let k = int j + enumerate_from cfg in
         if is_data_in_hdf5 f5 (predicate_of cfg k)
         then Inr (orbitals @ [Node_paths (node_MOs_of cfg k)], energies, guess)
         else if length (folders cfg) \<le> j then Inl IndexError
         else
           (let dict_inp = frame_input cfg j gs in
            case compute_orbitals cfg dict_inp guess of
              Inl e \<Rightarrow> Inl e
            | Inr promise_qm \<Rightarrow>
                (let promise_qm = Scheduled_check promise_qm dict_inp in
                 Inr (orbitals @ [if compute_orbitals_flag cfg
                                  then Promise_store_MOs promise_qm dict_inp
                                  else None_entry],
                      energies @ [Promise_store_enery promise_qm dict_inp],
                      Some promise_qm)))))"

fun calculate_mos_loop :: "config \<Rightarrow> hdf5 \<Rightarrow> nat \<Rightarrow> string list \<Rightarrow> mos_state \<Rightarrow> error + mos_state" where
  "calculate_mos_loop cfg f5 j [] st = Inr st"
| "calculate_mos_loop cfg f5 j (gs # rest) st =
     (case calculate_mos_step cfg f5 j gs st of
        Inl e \<Rightarrow> Inl e
      | Inr st' \<Rightarrow> calculate_mos_loop cfg f5 (Suc j) rest st')"

definition calculate_mos :: "config \<Rightarrow> hdf5 \<Rightarrow> error + (gathered list \<times> gathered list)" where
  "calculate_mos cfg f5 =
     (case calculate_mos_loop cfg f5 0 (geometries cfg) ([], [], None) of
        Inl e \<Rightarrow> Inl e
      | Inr (orbitals, energies, guess) \<Rightarrow> Inr (orbitals, energies))"

text \<open>
  The promise that one round leaves as the new \<open>guess_job\<close>: the scheduled check of the
  main job of frame \<open>j\<close>, the main job being built with the handle \<open>guess\<close>.
\<close>

definition checked_main_job :: "config \<Rightarrow> nat \<Rightarrow> string \<Rightarrow> promise option \<Rightarrow> promise" where
  "checked_main_job cfg j gs guess =
     Scheduled_check (Job cp2k_settings_main (frame_input cfg j gs) guess) (frame_input cfg j gs)"

section \<open>nac/schedule/components.py: the earlier scheduler\<close>

datatype nac_args = package_args | guess_args

text \<open>
  A job of the earlier scheduler: the arguments that \<open>call_schedule_qm\<close> hands to
  \<open>prepare_job_cp2k\<close> and that differ from job to job (settings, geometry, files, point
  number, directory, \<open>wfn_restart_job\<close>, \<open>store_in_hdf5\<close>). The project name, the HDF5
  path, \<open>nHOMOS\<close>, \<open>nLUMOS\<close> and the package configuration are the same for every job of
  a run and are left out.
\<close>

datatype nac_promise =
  Nac_job nac_args string JobFiles int path "nac_promise option" bool

definition call_schedule_qm ::
  "string \<Rightarrow> nac_args \<Rightarrow> path \<Rightarrow> JobFiles \<Rightarrow> int \<Rightarrow> string \<Rightarrow> nac_promise option \<Rightarrow> bool
     \<Rightarrow> error + nac_promise" where
  "call_schedule_qm packageName args pdir files k geom guess store_in_hdf5 =
     (if packageName = ''cp2k''
      then Inr (Nac_job args geom files k pdir guess store_in_hdf5)
      else Inl KeyError)"

record nac_config =
  nac_package_name :: string
  nac_all_geometries :: "string list"
  nac_project_name :: string
  nac_folders :: "path list"
  nac_calc_new_wf_guess_on_points :: "int list"
  nac_enumerate_from :: int

datatype nac_gathered = Nac_paths "path list" | Nac_orbitals nac_promise

definition create_properties_path :: "nac_config \<Rightarrow> int \<Rightarrow> path list" where
  "create_properties_path cfg i =
     (let rs = join (nac_project_name cfg) [''point_'' @ str_int i, nac_package_name cfg, ''mo'']
      in [join rs [''eigenvalues''], join rs [''coefficients'']])"

text \<open>\<open>search_data_in_hdf5\<close>, on the opened file \<open>f5\<close>; the paths are always a list.\<close>

definition search_data_in_hdf5 :: "nac_config \<Rightarrow> hdf5 \<Rightarrow> int \<Rightarrow> path list option" where
  "search_data_in_hdf5 cfg f5 i =
     (let paths_to_prop = create_properties_path cfg i;
          pred = list_all (\<lambda>p. f5 p \<noteq> None) paths_to_prop
      in if pred then Some paths_to_prop else None)"

type_synonym nac_state = "nac_gathered list \<times> nac_promise option"

definition nac_calculate_mos_step :: "nac_config \<Rightarrow> hdf5 \<Rightarrow> nat \<Rightarrow> string \<Rightarrow> nac_state \<Rightarrow> error + nac_state" where
  "nac_calculate_mos_step cfg f5 j gs st =
     (case st of (path_to_orbitals, guess) \<Rightarrow>
        (let k = int j + nac_enumerate_from cfg in
         case search_data_in_hdf5 cfg f5 k of
           Some paths_to_prop \<Rightarrow> Inr (path_to_orbitals @ [Nac_paths paths_to_prop], guess)
         | None \<Rightarrow>
             if length (nac_folders cfg) \<le> j then Inl IndexError
             else
               (let pdir = nac_folders cfg ! j;
                    files = create_file_names pdir k
                in case (if k \<in> set (nac_calc_new_wf_guess_on_points cfg)
                         then map_sum id Some
                                (call_schedule_qm (nac_package_name cfg) guess_args pdir files k gs guess False)
                         else Inr guess) of
                     Inl e \<Rightarrow> Inl e
                   | Inr guess \<Rightarrow>
                       (case call_schedule_qm (nac_package_name cfg) package_args pdir files k gs guess True of
                          Inl e \<Rightarrow> Inl e
                        | Inr promise_qm \<Rightarrow>
                            Inr (path_to_orbitals @ [Nac_orbitals promise_qm], Some promise_qm)))))"

fun nac_calculate_mos_loop :: "nac_config \<Rightarrow> hdf5 \<Rightarrow> nat \<Rightarrow> string list \<Rightarrow> nac_state \<Rightarrow> error + nac_state" where
  "nac_calculate_mos_loop cfg f5 j [] st = Inr st"
| "nac_calculate_mos_loop cfg f5 j (gs # rest) st =
     (case nac_calculate_mos_step cfg f5 j gs st of
        Inl e \<Rightarrow> Inl e
      | Inr st' \<Rightarrow> nac_calculate_mos_loop cfg f5 (Suc j) rest st')"

definition nac_calculate_mos :: "nac_config \<Rightarrow> hdf5 \<Rightarrow> error + nac_gathered list" where
  "nac_calculate_mos cfg f5 =
     map_sum id fst (nac_calculate_mos_loop cfg f5 0 (nac_all_geometries cfg) ([], None))"


text \<open>The main job that one round of the earlier scheduler builds for frame \<open>j\<close>.\<close>

definition nac_main_job :: "nac_config \<Rightarrow> nat \<Rightarrow> string \<Rightarrow> nac_promise option \<Rightarrow> nac_promise" where
  "nac_main_job cfg j gs guess =
     Nac_job package_args gs
       (create_file_names (nac_folders cfg ! j) (int j + nac_enumerate_from cfg))
       (int j + nac_enumerate_from cfg) (nac_folders cfg ! j) guess True"

definition nac_guess_job :: "nac_config \<Rightarrow> nat \<Rightarrow> string \<Rightarrow> nac_promise option \<Rightarrow> nac_promise" where
  "nac_guess_job cfg j gs guess =
     Nac_job guess_args gs
       (create_file_names (nac_folders cfg ! j) (int j + nac_enumerate_from cfg))
       (int j + nac_enumerate_from cfg) (nac_folders cfg ! j) guess False"

section \<open>The file system\<close>

text \<open>
  The part of the file system that \<open>create_point_folder\<close> and the scheduled functions
  touch: a map from the path of a directory to the names of the regular files in it, in
  the order in which
  \<^verbatim>\<open>os.listdir\<close> gives them. A path of the map is a directory that exists. A
  subdirectory is a path of its own and is not among the names, so the model covers
  directories in which the names that the patterns select are regular files.
\<close>

type_synonym fs = "path \<rightharpoonup> string list"

text \<open>\<^verbatim>\<open>os.remove(join(d, name))\<close> for a name that \<^verbatim>\<open>os.listdir(d)\<close> returned.\<close>

definition os_remove :: "path \<Rightarrow> string \<Rightarrow> fs \<Rightarrow> fs" where
  "os_remove d name files =
     (case files d of None \<Rightarrow> files | Some names \<Rightarrow> files(d \<mapsto> remove1 name names))"

text \<open>
  \<^verbatim>\<open>fnmatch\<close> for patterns made of literal characters and \<open>*\<close>, which the two patterns
  of the source are; the match is case-sensitive, as on POSIX. The first argument is the
  name, the second the pattern.
\<close>

fun fnmatch :: "string \<Rightarrow> string \<Rightarrow> bool" where
  "fnmatch [] [] = True"
| "fnmatch (c # cs) [] = False"
| "fnmatch [] (p # ps) = (p = CHR ''*'' \<and> fnmatch [] ps)"
| "fnmatch (c # cs) (p # ps) =
     (if p = CHR ''*'' then fnmatch (c # cs) ps \<or> fnmatch cs (p # ps)
      else c = p \<and> fnmatch cs ps)"

definition fnmatch_filter :: "string list \<Rightarrow> string \<Rightarrow> string list" where
  "fnmatch_filter names pat = filter (\<lambda>n. fnmatch n pat) names"

text \<open>
  \<open>is_under d p\<close>: the path \<open>p\<close> lies below the directory \<open>d\<close>. Paths are compared as
  strings, so the model covers normalised paths (no empty, \<open>.\<close> or \<open>..\<close> component, no
  symbolic link).
\<close>

definition is_under :: "path \<Rightarrow> path \<Rightarrow> bool" where
  "is_under d p = (take (Suc (length d)) p = d @ ''/'')"

text \<open>\<^verbatim>\<open>shutil.rmtree\<close>: the directory and everything below it are gone.\<close>

definition rmtree :: "path \<Rightarrow> fs \<Rightarrow> error + fs" where
  "rmtree d files =
     (if files d = None then Inl FileNotFoundError
      else Inr (\<lambda>p. if p = d \<or> is_under d p then None else files p))"

text \<open>
  \<^verbatim>\<open>os.makedirs\<close> without \<open>exist_ok\<close>: the leaf must not exist; the leaf and every
  missing directory above it are created, empty.
\<close>

definition makedirs :: "path \<Rightarrow> fs \<Rightarrow> error + fs" where
  "makedirs d files =
     (if files d \<noteq> None then Inl FileExistsError
      else Inr (\<lambda>p. if p = d \<or> (p \<noteq> [] \<and> is_under p d \<and> files p = None) then Some []
                    else files p))"

text \<open>\<^verbatim>\<open>range(a, b)\<close> of Python.\<close>

definition py_range :: "int \<Rightarrow> int \<Rightarrow> int list" where
  "py_range a b = map (\<lambda>i. a + int i) [0 ..< nat (b - a)]"

section \<open>create_point_folder, in both packages\<close>

text \<open>
  \<open>create_point_folder\<close> of \<^verbatim>\<open>nanoqm/schedule/components.py\<close> and of
  \<^verbatim>\<open>nac/schedule/components.py\<close>. The state of the loop is the file system and the list
  \<open>folders\<close>; \<open>os.path.exists\<close> is \<open>files new_dir \<noteq> None\<close>.
\<close>

type_synonym folder_state = "fs \<times> path list"

definition point_folder_step :: "path \<Rightarrow> int \<Rightarrow> folder_state \<Rightarrow> error + folder_state" where
  "point_folder_step work_dir k st =
     (case st of (files, dirs) \<Rightarrow>
        (let new_dir = join work_dir [''point_'' @ str_int k]
         in case (if files new_dir \<noteq> None then rmtree new_dir files else Inr files) of
              Inl e \<Rightarrow> Inl e
            | Inr files \<Rightarrow>
                (case makedirs new_dir files of
                   Inl e \<Rightarrow> Inl e
                 | Inr files \<Rightarrow> Inr (files, dirs @ [new_dir]))))"

definition nac_point_folder_step :: "path \<Rightarrow> int \<Rightarrow> folder_state \<Rightarrow> error + folder_state" where
  "nac_point_folder_step work_dir k st =
     (case st of (files, dirs) \<Rightarrow>
        (let new_dir = join work_dir [''point_'' @ str_int k]
         in case (if \<not> files new_dir \<noteq> None then makedirs new_dir files else Inr files) of
              Inl e \<Rightarrow> Inl e
            | Inr files \<Rightarrow> Inr (files, dirs @ [new_dir])))"

fun for_each :: "('a \<Rightarrow> 's \<Rightarrow> error + 's) \<Rightarrow> 'a list \<Rightarrow> 's \<Rightarrow> error + 's" where
  "for_each body [] st = Inr st"
| "for_each body (x # xs) st =
     (case body x st of Inl e \<Rightarrow> Inl e | Inr st' \<Rightarrow> for_each body xs st')"

definition create_point_folder :: "path \<Rightarrow> int \<Rightarrow> int \<Rightarrow> fs \<Rightarrow> error + folder_state" where
  "create_point_folder work_dir n enum_from files =
     for_each (point_folder_step work_dir) (py_range enum_from (n + enum_from)) (files, [])"

definition nac_create_point_folder :: "path \<Rightarrow> int \<Rightarrow> int \<Rightarrow> fs \<Rightarrow> error + folder_state" where
  "nac_create_point_folder work_dir n enum_from files =
     for_each (nac_point_folder_step work_dir) (py_range enum_from (n + enum_from)) (files, [])"

text \<open>What \<^verbatim>\<open>os.path.join(work_dir, name)\<close> puts before a name that is not absolute.\<close>

definition dir_prefix :: "path \<Rightarrow> path" where
  "dir_prefix work_dir =
     (if work_dir = [] \<or> last work_dir = CHR ''/'' then work_dir else work_dir @ ''/'')"

section \<open>nanoqm/schedule/components.py: the scheduled functions\<close>

text \<open>
  What a finished job gives to the functions that are scheduled after it: the orbitals
  (eigenvalues and coefficients), the energy, the warnings (a dictionary from the message
  to the class of the warning, or None) and the working directory of its archive.
\<close>

datatype warning = SCF_Convergence_Warning | Other_Warning

record qm_result =
  qm_orbitals :: "array \<times> array"
  qm_energy :: array
  qm_warnings :: "(string \<times> warning) list option"
  qm_work_dir :: path

text \<open>
  Modelled from the spec: \<open>store_arrays_in_hdf5\<close> lives in \<^verbatim>\<open>nanoqm/common.py\<close>, which
  is not among the sources. Section 4.1 of the specification gives its contract,
  \<open>write(key, array_or_scalar)\<close>: the key holds the value afterwards.
\<close>

definition store_arrays_in_hdf5 :: "hdf5 \<Rightarrow> path \<Rightarrow> array \<Rightarrow> hdf5" where
  "store_arrays_in_hdf5 f5 p v = f5(p \<mapsto> v)"

definition dump_orbitals_to_hdf5 :: "array \<times> array \<Rightarrow> hdf5 \<Rightarrow> string \<Rightarrow> string \<Rightarrow> hdf5" where
  "dump_orbitals_to_hdf5 data f5 project job =
     (let es = ''cp2k/mo/eigenvalues'';
          css = ''cp2k/mo/coefficients'';
          path_eigenvalues = join project [job, es];
          path_coefficients = join project [job, css];
          f5 = store_arrays_in_hdf5 f5 path_eigenvalues (fst data)
      in store_arrays_in_hdf5 f5 path_coefficients (snd data))"

text \<open>
  \<open>store_MOs\<close>, run on the result of its job. The state is the file system and the HDF5
  file. The \<open>finally\<close> block has no handler: what the listing, the index \<open>[0]\<close> or the
  removal raises leaves the function.
\<close>

definition store_MOs ::
  "config \<Rightarrow> dict_input \<Rightarrow> qm_result \<Rightarrow> fs \<times> hdf5 \<Rightarrow> error + (path list \<times> fs \<times> hdf5)" where
  "store_MOs cfg dict_inp promise_qm st =
     (case st of (files, f5) \<Rightarrow>
        (let mos = qm_orbitals promise_qm;
             f5 = dump_orbitals_to_hdf5 mos f5 (project_name cfg) (job_name dict_inp);
             work_dir = qm_work_dir promise_qm
         in case files work_dir of
              None \<Rightarrow> Inl FileNotFoundError
            | Some names \<Rightarrow>
                (case fnmatch_filter names ''mo_*MOLog'' of
                   [] \<Rightarrow> Inl IndexError
                 | path_MOs # others \<Rightarrow>
                     Inr (node_MOs dict_inp, os_remove work_dir path_MOs files, f5))))"

definition scf_warned :: "qm_result \<Rightarrow> bool" where
  "scf_warned promise_qm =
     (case qm_warnings promise_qm of
        None \<Rightarrow> False
      | Some warnings \<Rightarrow> list_ex (\<lambda>mw. snd mw = SCF_Convergence_Warning) warnings)"

text \<open>
  \<open>schedule_check\<close>, run on the result of its job. It returns either the result it was
  given or a new promise, the one that \<open>compute_orbitals\<close> builds. The state is the
  configuration, whose restart list it extends in place, and the file system.
\<close>

datatype check_result = Return_result qm_result | Return_promise promise

definition schedule_check ::
  "qm_result \<Rightarrow> config \<Rightarrow> dict_input \<Rightarrow> fs \<Rightarrow> error + (check_result \<times> config \<times> fs)" where
  "schedule_check promise_qm cfg dict_inp files =
     (if \<not> ignore_warnings cfg \<and> scf_warned promise_qm
      then
        (case files (point_dir dict_inp) of
           None \<Rightarrow> Inl FileNotFoundError
         | Some names \<Rightarrow>
             (case fnmatch_filter names ''mo*MOLog'' of
                [] \<Rightarrow> Inl IndexError
              | path # others \<Rightarrow>
                  (let files = os_remove (point_dir dict_inp) path files in
                   case calc_new_wf_guess_on_points cfg of
                     None \<Rightarrow> Inl AttributeError
                   | Some points \<Rightarrow>
                       (let cfg = cfg\<lparr>calc_new_wf_guess_on_points := Some (points @ [k_idx dict_inp])\<rparr>
                        in case compute_orbitals cfg dict_inp None of
                             Inl e \<Rightarrow> Inl e
                           | Inr p \<Rightarrow> Inr (Return_promise p, cfg, files)))))
      else Inr (Return_result promise_qm, cfg, files))"

section \<open>Evaluating promises\<close>

text \<open>
  The graph is evaluated by the workflow engine, and the jobs are run by the solver;
  both are outside the repository. The solver is a parameter: a function of the settings,
  the input of the frame, the result of the job it is started from if there is one, and
  the file system, which it may change; it may fail. The world of a run is the
  configuration (whose restart list \<open>schedule_check\<close> extends), the file system and the
  log of the jobs submitted to the solver, in the order of submission.
\<close>

type_synonym solver =
  "settings_name \<Rightarrow> dict_input \<Rightarrow> qm_result option \<Rightarrow> fs \<Rightarrow> error + (qm_result \<times> fs)"

record world =
  w_cfg :: config
  w_files :: fs
  w_submitted :: "(settings_name \<times> dict_input) list"

definition submit ::
  "solver \<Rightarrow> settings_name \<Rightarrow> dict_input \<Rightarrow> qm_result option \<Rightarrow> world \<Rightarrow> error + (qm_result \<times> world)" where
  "submit sv s d g w =
     (case sv s d g (w_files w) of
        Inl e \<Rightarrow> Inl e
      | Inr (r, files) \<Rightarrow> Inr (r, w\<lparr>w_files := files, w_submitted := w_submitted w @ [(s, d)]\<rparr>))"

fun weight :: "promise \<Rightarrow> nat" where
  "weight (Job s d None) = 1"
| "weight (Job s d (Some g)) = Suc (weight g)"
| "weight (Scheduled_check p d) = weight p + 3"

text \<open>
  The evaluation of one promise and of what it depends on. A job runs after the job it
  takes its guess from. A call of the scheduled function \<open>schedule_check\<close> runs after its
  job, on the result of that job; when it returns a promise instead of a result, that
  promise is evaluated in its place and its result is the result of the call. Nothing in
  \<open>schedule_check\<close> wraps the promise it returns in a further check.
\<close>

function run_promise :: "solver \<Rightarrow> promise \<Rightarrow> world \<Rightarrow> error + (qm_result \<times> world)" where
  "run_promise sv (Job s d None) w = submit sv s d None w"
| "run_promise sv (Job s d (Some g)) w =
     (case run_promise sv g w of
        Inl e \<Rightarrow> Inl e
      | Inr (rg, w1) \<Rightarrow> submit sv s d (Some rg) w1)"
| "run_promise sv (Scheduled_check p d) w =
     (case run_promise sv p w of
        Inl e \<Rightarrow> Inl e
      | Inr (r, w1) \<Rightarrow>
          (case schedule_check r (w_cfg w1) d (w_files w1) of
             Inl e \<Rightarrow> Inl e
           | Inr (Return_result r', c, f) \<Rightarrow> Inr (r', w1\<lparr>w_cfg := c, w_files := f\<rparr>)
           | Inr (Return_promise p', c, f) \<Rightarrow> run_promise sv p' (w1\<lparr>w_cfg := c, w_files := f\<rparr>)))"
  by pat_completeness auto
termination
  by (relation "measure (\<lambda>(sv, p, w). weight p)")
    (auto simp: schedule_check_def compute_orbitals_def prepare_job_cp2k_def Let_def
      split: if_splits option.splits list.splits sum.splits)

section \<open>Concrete runs\<close>

definition cfg_two_frames :: config where
  "cfg_two_frames =
     \<lparr> geometries = [''geometry 0'', ''geometry 1''], project_name = ''proj'',
       package_name = ''cp2k'', folders = [''/scratch/point_0'', ''/scratch/point_1''],
       compute_orbitals_flag = True, calc_new_wf_guess_on_points = Some [],
       enumerate_from = 0, ignore_warnings = False \<rparr>"

definition cfg_energy_only :: config where
  "cfg_energy_only =
     \<lparr> geometries = [''geometry 0''], project_name = ''proj'', package_name = ''cp2k'',
       folders = [''/scratch/point_0''], compute_orbitals_flag = False,
       calc_new_wf_guess_on_points = Some [], enumerate_from = 0, ignore_warnings = False \<rparr>"

definition ncfg_two_frames :: nac_config where
  "ncfg_two_frames =
     \<lparr> nac_package_name = ''cp2k'', nac_all_geometries = [''geometry 0'', ''geometry 1''],
       nac_project_name = ''proj'', nac_folders = [''/scratch/point_0'', ''/scratch/point_1''],
       nac_calc_new_wf_guess_on_points = [], nac_enumerate_from = 0 \<rparr>"

definition f5_energy_only :: hdf5 where
  "f5_energy_only = [''proj/point_0/cp2k/mo/energy'' \<mapsto> [0]]"

definition f5_eigenvalues_only :: hdf5 where
  "f5_eigenvalues_only = [''proj/point_0/cp2k/mo/eigenvalues'' \<mapsto> [1]]"

definition f5_point_0_MOs :: hdf5 where
  "f5_point_0_MOs =
     [''proj/point_0/cp2k/mo/eigenvalues'' \<mapsto> [1], ''proj/point_0/cp2k/mo/coefficients'' \<mapsto> [2]]"

definition prior_handle :: promise where
  "prior_handle =
     checked_main_job cfg_two_frames 0 ''geometry 0''
       (Some (Job cp2k_settings_guess (frame_input cfg_two_frames 0 ''geometry 0'') None))"

definition nac_prior_handle :: nac_promise where
  "nac_prior_handle = nac_main_job ncfg_two_frames 0 ''geometry 0'' None"

definition cfg_restart_at_1 :: config where
  "cfg_restart_at_1 = cfg_two_frames\<lparr>calc_new_wf_guess_on_points := Some [1]\<rparr>"

definition ncfg_restart_at_1 :: nac_config where
  "ncfg_restart_at_1 = ncfg_two_frames\<lparr>nac_calc_new_wf_guess_on_points := [1]\<rparr>"

definition cfg_restart_out_of_range :: config where
  "cfg_restart_out_of_range = cfg_two_frames\<lparr>calc_new_wf_guess_on_points := Some [7]\<rparr>"

definition ncfg_restart_out_of_range :: nac_config where
  "ncfg_restart_out_of_range = ncfg_two_frames\<lparr>nac_calc_new_wf_guess_on_points := [7]\<rparr>"

definition r_warned :: qm_result where
  "r_warned =
     \<lparr> qm_orbitals = ([1], [2]), qm_energy = [3],
       qm_warnings = Some [(''SCF run NOT converged'', SCF_Convergence_Warning)],
       qm_work_dir = ''/scratch/point_0'' \<rparr>"

definition r_clean :: qm_result where
  "r_clean = r_warned\<lparr>qm_warnings := Some []\<rparr>"

definition files_with_log :: fs where
  "files_with_log = [''/scratch/point_0'' \<mapsto> [''point_0.out'', ''mo_coeff-1_0.MOLog'']]"

definition files_without_log :: fs where
  "files_without_log = [''/scratch/point_0'' \<mapsto> [''point_0.out'']]"

text \<open>
  A solver that reports the SCF warning on every job and leaves an orbital log in the
  directory of the point.
\<close>

definition solver_always_warns :: solver where
  "solver_always_warns s d g files =
     Inr (r_warned\<lparr>qm_work_dir := point_dir d\<rparr>,
          files(point_dir d \<mapsto> [''mo_coeff-1_0.MOLog'']))"

definition w_start :: world where
  "w_start = \<lparr> w_cfg = cfg_two_frames, w_files = Map.empty, w_submitted = [] \<rparr>"

definition files_old :: fs where
  "files_old =
     [''/scratch'' \<mapsto> [], ''/scratch/point_0'' \<mapsto> [''old.dat''],
      ''/scratch/point_0/sub'' \<mapsto> [''older.dat'']]"

section \<open>Properties of the graph construction\<close>

lemma str_int_small:
  "str_int 0 = ''0''" "str_int 1 = ''1''" "str_int 2 = ''2''" "str_int 3 = ''3''"
  by (simp_all add: str_int_def str_nat.simps)

lemmas path_simps =
  predicate_of_def node_MOs_of_def node_energy_of_def mo_root_def create_properties_path_def
  join_def join2_def str_int_small

lemma frame_input_k [simp]: "k_idx (frame_input cfg j gs) = int j + enumerate_from cfg"
  by (simp add: frame_input_def Let_def)

lemma frame_input_point_dir [simp]: "point_dir (frame_input cfg j gs) = folders cfg ! j"
  by (simp add: frame_input_def Let_def)

lemma frame_input_job_files [simp]:
  "(frame_input cfg j gs)\<lparr>job_files := create_file_names (folders cfg ! j) (int j + enumerate_from cfg)\<rparr>
     = frame_input cfg j gs"
  by (simp add: frame_input_def Let_def)

lemma compute_orbitals_Some:
  "calc_new_wf_guess_on_points cfg = Some pts \<Longrightarrow>
   compute_orbitals cfg d guess =
     (let d' = d\<lparr>job_files := create_file_names (point_dir d) (k_idx d)\<rparr> in
      Inr (Job cp2k_settings_main d'
             (if k_idx d \<in> set pts \<or> guess = None then Some (Job cp2k_settings_guess d' guess) else guess)))"
  by (simp add: compute_orbitals_def prepare_job_cp2k_def Let_def)

lemma calculate_mos_step_cached:
  "is_data_in_hdf5 f5 (predicate_of cfg (int j + enumerate_from cfg)) \<Longrightarrow>
   calculate_mos_step cfg f5 j gs (orbitals, energies, guess) =
     Inr (orbitals @ [Node_paths (node_MOs_of cfg (int j + enumerate_from cfg))], energies, guess)"
  by (simp add: calculate_mos_step_def)

lemma calculate_mos_step_fresh:
  assumes "\<not> is_data_in_hdf5 f5 (predicate_of cfg (int j + enumerate_from cfg))"
    and "j < length (folders cfg)"
    and "calc_new_wf_guess_on_points cfg = Some pts"
  shows "calculate_mos_step cfg f5 j gs (orbitals, energies, guess) =
     (let g = (if int j + enumerate_from cfg \<in> set pts \<or> guess = None
               then Some (Job cp2k_settings_guess (frame_input cfg j gs) guess) else guess);
          p = checked_main_job cfg j gs g
      in Inr (orbitals @ [if compute_orbitals_flag cfg then Promise_store_MOs p (frame_input cfg j gs)
                          else None_entry],
              energies @ [Promise_store_enery p (frame_input cfg j gs)], Some p))"
  using assms
  by (simp add: calculate_mos_step_def compute_orbitals_def prepare_job_cp2k_def checked_main_job_def Let_def)

lemma nac_step_cached:
  "search_data_in_hdf5 cfg f5 (int j + nac_enumerate_from cfg) = Some ps \<Longrightarrow>
   nac_calculate_mos_step cfg f5 j gs (paths, guess) = Inr (paths @ [Nac_paths ps], guess)"
  by (simp add: nac_calculate_mos_step_def)

lemma nac_step_fresh:
  assumes "search_data_in_hdf5 cfg f5 (int j + nac_enumerate_from cfg) = None"
    and "j < length (nac_folders cfg)"
    and "nac_package_name cfg = ''cp2k''"
  shows "nac_calculate_mos_step cfg f5 j gs (paths, guess) =
     (let g = (if int j + nac_enumerate_from cfg \<in> set (nac_calc_new_wf_guess_on_points cfg)
               then Some (nac_guess_job cfg j gs guess) else guess);
          p = nac_main_job cfg j gs g
      in Inr (paths @ [Nac_orbitals p], Some p))"
  using assms
  by (simp add: nac_calculate_mos_step_def call_schedule_qm_def nac_main_job_def nac_guess_job_def Let_def)

subsection \<open>Frames found in the HDF5 file\<close>

text \<open>
  What the loop does with a frame whose probed keys are in the file holds in general
  (\<open>calculate_mos_step_cached\<close>): the two paths of the orbitals are appended to
  \<open>orbitals\<close>, nothing is appended to \<open>energies\<close>, no job is built and \<open>guess_job\<close> stays.
  The appended paths are the probed ones only when orbitals are requested.
\<close>

lemma cached_paths_present:
  assumes "compute_orbitals_flag cfg"
    and "is_data_in_hdf5 f5 (predicate_of cfg k)"
  shows "list_all (\<lambda>p. f5 p \<noteq> None) (node_MOs_of cfg k)"
  using assms by (simp add: predicate_of_def is_data_in_hdf5_def)

text \<open>
  C1. A frame whose keys are in the store contributes exactly those keys, builds no job
  and leaves the guess handle alone. In a run that keeps only energies
  (\<open>compute_orbitals\<close> is false) the probed key is the energy; the loop then returns the
  two orbital paths, which are not in the file, and no energy path.
\<close>

theorem cached_energy_only_returns_absent_keys:
  "calculate_mos cfg_energy_only f5_energy_only =
     Inr ([Node_paths [''proj/point_0/cp2k/mo/eigenvalues'', ''proj/point_0/cp2k/mo/coefficients'']], [])
   \<and> is_data_in_hdf5 f5_energy_only (predicate_of cfg_energy_only 0)
   \<and> predicate_of cfg_energy_only 0 = One_key ''proj/point_0/cp2k/mo/energy''
   \<and> f5_energy_only ''proj/point_0/cp2k/mo/eigenvalues'' = None
   \<and> f5_energy_only ''proj/point_0/cp2k/mo/coefficients'' = None"
  by (simp add: calculate_mos_def calculate_mos_step_def cfg_energy_only_def f5_energy_only_def
      is_data_in_hdf5_def path_simps)

subsection \<open>The two gathered lists\<close>

lemma step_lengths:
  "calculate_mos_step cfg f5 j gs (orbitals, energies, guess) = Inr (orbitals', energies', guess') \<Longrightarrow>
   length orbitals' = Suc (length orbitals) \<and>
   length energies' =
     length energies + (if is_data_in_hdf5 f5 (predicate_of cfg (int j + enumerate_from cfg)) then 0 else 1)"
  by (auto simp: calculate_mos_step_def Let_def split: if_splits sum.splits)

lemma calculate_mos_loop_lengths:
  "calculate_mos_loop cfg f5 j rest (orbitals, energies, guess) = Inr (orbitals', energies', guess') \<Longrightarrow>
   length orbitals' = length orbitals + length rest \<and>
   length energies' =
     length energies +
     length (filter (\<lambda>i. \<not> is_data_in_hdf5 f5 (predicate_of cfg (int i + enumerate_from cfg)))
               [j ..< j + length rest])"
proof (induction rest arbitrary: j orbitals energies guess)
  case Nil
  then show ?case by simp
next
  case (Cons gs rest)
  from Cons.prems obtain o1 e1 g1 where
    step: "calculate_mos_step cfg f5 j gs (orbitals, energies, guess) = Inr (o1, e1, g1)" and
    loop: "calculate_mos_loop cfg f5 (Suc j) rest (o1, e1, g1) = Inr (orbitals', energies', guess')"
    by (auto split: sum.splits)
  have up: "[j ..< Suc (j + length rest)] = j # [Suc j ..< Suc (j + length rest)]"
    by (subst upt_rec) simp
  from step_lengths [OF step] Cons.IH [OF loop] show ?case
    by (simp add: up del: upt_Suc)
qed

text \<open>
  C6. Every frame contributes one entry to \<open>orbitals\<close>; only the frames that were
  scheduled contribute to \<open>energies\<close> (\<open>calculate_mos_loop_lengths\<close>). With the orbitals
  of frame 0 in the file and frame 1 to compute, the two lists have lengths 2 and 1, and
  the only energy entry is that of frame 1.
\<close>

theorem cached_frame_has_no_energy_entry:
  "calculate_mos cfg_two_frames f5_point_0_MOs =
     Inr ([Node_paths [''proj/point_0/cp2k/mo/eigenvalues'', ''proj/point_0/cp2k/mo/coefficients''],
           Promise_store_MOs
             (checked_main_job cfg_two_frames 1 ''geometry 1''
                (Some (Job cp2k_settings_guess (frame_input cfg_two_frames 1 ''geometry 1'') None)))
             (frame_input cfg_two_frames 1 ''geometry 1'')],
          [Promise_store_enery
             (checked_main_job cfg_two_frames 1 ''geometry 1''
                (Some (Job cp2k_settings_guess (frame_input cfg_two_frames 1 ''geometry 1'') None)))
             (frame_input cfg_two_frames 1 ''geometry 1'')])"
  by (simp add: calculate_mos_def calculate_mos_step_def compute_orbitals_def prepare_job_cp2k_def
      checked_main_job_def frame_input_def cfg_two_frames_def f5_point_0_MOs_def
      is_data_in_hdf5_def path_simps Let_def)


subsection \<open>The chain of guess handles\<close>

text \<open>
  The promises that a run without restart points and without cache hits leaves as
  handles, frame after frame, written after the description of the guess chain in
  section 4.2 of the specification: each one is built with its predecessor.
\<close>

fun chained :: "config \<Rightarrow> nat \<Rightarrow> string list \<Rightarrow> promise option \<Rightarrow> promise list" where
  "chained cfg j [] guess = []"
| "chained cfg j (gs # rest) guess =
     (let p = checked_main_job cfg j gs
                (case guess of
                   None \<Rightarrow> Some (Job cp2k_settings_guess (frame_input cfg j gs) None)
                 | Some g \<Rightarrow> Some g)
      in p # chained cfg (Suc j) rest (Some p))"

fun nac_chained :: "nac_config \<Rightarrow> nat \<Rightarrow> string list \<Rightarrow> nac_promise option \<Rightarrow> nac_promise list" where
  "nac_chained cfg j [] guess = []"
| "nac_chained cfg j (gs # rest) guess =
     (let p = nac_main_job cfg j gs guess in p # nac_chained cfg (Suc j) rest (Some p))"

lemma length_chained [simp]: "length (chained cfg j rest guess) = length rest"
  by (induction rest arbitrary: j guess) (simp_all add: Let_def)

lemma length_nac_chained [simp]: "length (nac_chained cfg j rest guess) = length rest"
  by (induction rest arbitrary: j guess) (simp_all add: Let_def)

lemma chained_nth_Suc:
  "Suc i < length rest \<Longrightarrow>
   chained cfg j rest guess ! Suc i =
     checked_main_job cfg (j + Suc i) (rest ! Suc i) (Some (chained cfg j rest guess ! i))"
proof (induction rest arbitrary: i j guess)
  case Nil
  then show ?case by simp
next
  case (Cons gs rest)
  show ?case
  proof (cases i)
    case 0
    with Cons.prems obtain gs' rest' where r: "rest = gs' # rest'"
      by (cases rest) auto
    show ?thesis using 0 r by (simp add: Let_def)
  next
    case (Suc i')
    with Cons.prems have "Suc i' < length rest" by simp
    from Cons.IH [OF this, of "Suc j"] show ?thesis
      using Suc by (simp add: Let_def)
  qed
qed

lemma nac_chained_nth_Suc:
  "Suc i < length rest \<Longrightarrow>
   nac_chained cfg j rest guess ! Suc i =
     nac_main_job cfg (j + Suc i) (rest ! Suc i) (Some (nac_chained cfg j rest guess ! i))"
proof (induction rest arbitrary: i j guess)
  case Nil
  then show ?case by simp
next
  case (Cons gs rest)
  show ?case
  proof (cases i)
    case 0
    with Cons.prems obtain gs' rest' where r: "rest = gs' # rest'"
      by (cases rest) auto
    show ?thesis using 0 r by (simp add: Let_def)
  next
    case (Suc i')
    with Cons.prems have "Suc i' < length rest" by simp
    from Cons.IH [OF this, of "Suc j"] show ?thesis
      using Suc by (simp add: Let_def)
  qed
qed

lemma calculate_mos_loop_chained:
  assumes "calc_new_wf_guess_on_points cfg = Some []"
    and "\<forall>i < length rest. \<not> is_data_in_hdf5 f5 (predicate_of cfg (int (j + i) + enumerate_from cfg))"
    and "j + length rest \<le> length (folders cfg)"
  shows "\<exists>orbitals' guess'.
           calculate_mos_loop cfg f5 j rest (orbitals, energies, guess) =
             Inr (orbitals', energies @ map2 Promise_store_enery (chained cfg j rest guess)
                                          (map2 (frame_input cfg) [j ..< j + length rest] rest), guess')"
  using assms(2,3)
proof (induction rest arbitrary: j orbitals energies guess)
  case Nil
  then show ?case by simp
next
  case (Cons gs rest)
  from Cons.prems(1) have nc: "\<not> is_data_in_hdf5 f5 (predicate_of cfg (int j + enumerate_from cfg))"
    by force
  from Cons.prems(2) have jl: "j < length (folders cfg)" by simp
  have rest_nc: "\<forall>i < length rest. \<not> is_data_in_hdf5 f5 (predicate_of cfg (int (Suc j + i) + enumerate_from cfg))"
  proof (intro allI impI)
    fix i assume "i < length rest"
    then have "Suc i < length (gs # rest)" by simp
    with Cons.prems(1) have "\<not> is_data_in_hdf5 f5 (predicate_of cfg (int (j + Suc i) + enumerate_from cfg))"
      by blast
    then show "\<not> is_data_in_hdf5 f5 (predicate_of cfg (int (Suc j + i) + enumerate_from cfg))" by simp
  qed
  from Cons.prems(2) have rest_len: "Suc j + length rest \<le> length (folders cfg)" by simp
  have up: "[j ..< Suc (j + length rest)] = j # [Suc j ..< Suc (j + length rest)]"
    by (subst upt_rec) simp
  let ?d = "frame_input cfg j gs"
  let ?g = "case guess of None \<Rightarrow> Some (Job cp2k_settings_guess ?d None) | Some g \<Rightarrow> Some g"
  let ?p = "checked_main_job cfg j gs ?g"
  let ?o = "orbitals @ [if compute_orbitals_flag cfg then Promise_store_MOs ?p ?d else None_entry]"
  let ?e = "energies @ [Promise_store_enery ?p ?d]"
  have step: "calculate_mos_step cfg f5 j gs (orbitals, energies, guess) = Inr (?o, ?e, Some ?p)"
    using calculate_mos_step_fresh [OF nc jl assms(1), of gs orbitals energies guess]
    by (cases guess) (simp_all add: Let_def)
  from Cons.IH [OF rest_nc rest_len, of ?o ?e "Some ?p"]
  obtain orbitals' guess' where
    "calculate_mos_loop cfg f5 (Suc j) rest (?o, ?e, Some ?p) =
       Inr (orbitals', ?e @ map2 Promise_store_enery (chained cfg (Suc j) rest (Some ?p))
                               (map2 (frame_input cfg) [Suc j ..< Suc j + length rest] rest), guess')"
    by blast
  then have "calculate_mos_loop cfg f5 j (gs # rest) (orbitals, energies, guess) =
       Inr (orbitals', energies @ map2 Promise_store_enery (chained cfg j (gs # rest) guess)
                               (map2 (frame_input cfg) [j ..< j + length (gs # rest)] (gs # rest)), guess')"
    using step up by (simp add: Let_def del: upt_Suc)
  then show ?case by blast
qed

lemma nac_loop_chained:
  assumes "nac_calc_new_wf_guess_on_points cfg = []"
    and "nac_package_name cfg = ''cp2k''"
    and "\<forall>i < length rest. search_data_in_hdf5 cfg f5 (int (j + i) + nac_enumerate_from cfg) = None"
    and "j + length rest \<le> length (nac_folders cfg)"
  shows "\<exists>guess'. nac_calculate_mos_loop cfg f5 j rest (paths, guess) =
           Inr (paths @ map Nac_orbitals (nac_chained cfg j rest guess), guess')"
  using assms(3,4)
proof (induction rest arbitrary: j paths guess)
  case Nil
  then show ?case by simp
next
  case (Cons gs rest)
  from Cons.prems(1) have nc: "search_data_in_hdf5 cfg f5 (int j + nac_enumerate_from cfg) = None"
    by force
  from Cons.prems(2) have jl: "j < length (nac_folders cfg)" by simp
  have rest_nc: "\<forall>i < length rest. search_data_in_hdf5 cfg f5 (int (Suc j + i) + nac_enumerate_from cfg) = None"
  proof (intro allI impI)
    fix i assume "i < length rest"
    then have "Suc i < length (gs # rest)" by simp
    with Cons.prems(1) have "search_data_in_hdf5 cfg f5 (int (j + Suc i) + nac_enumerate_from cfg) = None"
      by blast
    then show "search_data_in_hdf5 cfg f5 (int (Suc j + i) + nac_enumerate_from cfg) = None" by simp
  qed
  from Cons.prems(2) have rest_len: "Suc j + length rest \<le> length (nac_folders cfg)" by simp
  let ?p = "nac_main_job cfg j gs guess"
  have step: "nac_calculate_mos_step cfg f5 j gs (paths, guess) = Inr (paths @ [Nac_orbitals ?p], Some ?p)"
    using nac_step_fresh [OF nc jl assms(2), of gs paths guess] assms(1) by (simp add: Let_def)
  from Cons.IH [OF rest_nc rest_len, of "paths @ [Nac_orbitals ?p]" "Some ?p"]
  obtain guess' where
    "nac_calculate_mos_loop cfg f5 (Suc j) rest (paths @ [Nac_orbitals ?p], Some ?p) =
       Inr ((paths @ [Nac_orbitals ?p]) @ map Nac_orbitals (nac_chained cfg (Suc j) rest (Some ?p)), guess')"
    by blast
  then have "nac_calculate_mos_loop cfg f5 j (gs # rest) (paths, guess) =
       Inr (paths @ map Nac_orbitals (nac_chained cfg j (gs # rest) guess), guess')"
    using step by (simp add: Let_def)
  then show ?case by blast
qed

lemma chained_nth_0:
  "chained cfg j (gs # rest) None ! 0 =
     checked_main_job cfg j gs (Some (Job cp2k_settings_guess (frame_input cfg j gs) None))"
  by (simp add: Let_def)

lemma chained_nth_main:
  assumes "i < length rest"
  shows "\<exists>g. chained cfg j rest guess ! i = checked_main_job cfg (j + i) (rest ! i) g"
proof (cases i)
  case 0
  with assms obtain gs rest' where r: "rest = gs # rest'"
    by (cases rest) auto
  show ?thesis using 0 r by (simp add: Let_def) blast
next
  case (Suc i')
  with assms have "Suc i' < length rest" by simp
  from chained_nth_Suc [OF this, of cfg j guess] show ?thesis
    using Suc by blast
qed

lemma nac_chained_nth_main:
  assumes "i < length rest"
  shows "\<exists>g. nac_chained cfg j rest guess ! i = nac_main_job cfg (j + i) (rest ! i) g"
proof (cases i)
  case 0
  with assms obtain gs rest' where r: "rest = gs # rest'"
    by (cases rest) auto
  show ?thesis using 0 r by (simp add: Let_def) blast
next
  case (Suc i')
  with assms have "Suc i' < length rest" by simp
  from nac_chained_nth_Suc [OF this, of cfg j guess] show ?thesis
    using Suc by blast
qed

text \<open>
  C2. In a run with no restart points and no cache hits, the job built for frame \<open>j + 1\<close>
  has as its warm-start handle the promise that frame \<open>j\<close> left: in the current scheduler
  the scheduled check of the main job of frame \<open>j\<close>, in the earlier one the main job of
  frame \<open>j\<close> itself. The handles follow the frame index, starting at frame 0, whose main
  job is built on a guess-only job without a guess in the current scheduler and without
  any guess in the earlier one.
\<close>

theorem guess_propagation:
  assumes "calc_new_wf_guess_on_points cfg = Some []"
    and "\<forall>j < length (geometries cfg). \<not> is_data_in_hdf5 f5 (predicate_of cfg (int j + enumerate_from cfg))"
    and "length (geometries cfg) \<le> length (folders cfg)"
    and "nac_calc_new_wf_guess_on_points ncfg = []"
    and "nac_package_name ncfg = ''cp2k''"
    and "\<forall>j < length (nac_all_geometries ncfg). search_data_in_hdf5 ncfg nf5 (int j + nac_enumerate_from ncfg) = None"
    and "length (nac_all_geometries ncfg) \<le> length (nac_folders ncfg)"
  shows "(\<exists>orbitals energies.
           calculate_mos cfg f5 = Inr (orbitals, energies) \<and>
           length energies = length (geometries cfg) \<and>
           (0 < length (geometries cfg) \<longrightarrow>
              energies ! 0 =
                Promise_store_enery
                  (checked_main_job cfg 0 (geometries cfg ! 0)
                     (Some (Job cp2k_settings_guess (frame_input cfg 0 (geometries cfg ! 0)) None)))
                  (frame_input cfg 0 (geometries cfg ! 0))) \<and>
           (\<forall>j. Suc j < length (geometries cfg) \<longrightarrow>
              (\<exists>g. energies ! j =
                     Promise_store_enery (checked_main_job cfg j (geometries cfg ! j) g)
                       (frame_input cfg j (geometries cfg ! j)) \<and>
                   energies ! Suc j =
                     Promise_store_enery
                       (checked_main_job cfg (Suc j) (geometries cfg ! Suc j)
                          (Some (checked_main_job cfg j (geometries cfg ! j) g)))
                       (frame_input cfg (Suc j) (geometries cfg ! Suc j))))) \<and>
         (\<exists>paths.
           nac_calculate_mos ncfg nf5 = Inr paths \<and>
           length paths = length (nac_all_geometries ncfg) \<and>
           (0 < length (nac_all_geometries ncfg) \<longrightarrow>
              paths ! 0 = Nac_orbitals (nac_main_job ncfg 0 (nac_all_geometries ncfg ! 0) None)) \<and>
           (\<forall>j. Suc j < length (nac_all_geometries ncfg) \<longrightarrow>
              (\<exists>g. paths ! j = Nac_orbitals (nac_main_job ncfg j (nac_all_geometries ncfg ! j) g) \<and>
                   paths ! Suc j =
                     Nac_orbitals
                       (nac_main_job ncfg (Suc j) (nac_all_geometries ncfg ! Suc j)
                          (Some (nac_main_job ncfg j (nac_all_geometries ncfg ! j) g))))))"
proof
  let ?gs = "geometries cfg"
  let ?C = "chained cfg 0 ?gs None"
  let ?E = "map2 Promise_store_enery ?C (map2 (frame_input cfg) [0 ..< length ?gs] ?gs)"
  from calculate_mos_loop_chained [OF assms(1), of ?gs f5 0 "[]" "[]" None] assms(2,3)
  obtain orbitals' guess' where
    "calculate_mos_loop cfg f5 0 ?gs ([], [], None) = Inr (orbitals', ?E, guess')"
    by auto
  then have cm: "calculate_mos cfg f5 = Inr (orbitals', ?E)"
    by (simp add: calculate_mos_def)
  have len: "length ?E = length ?gs" by simp
  have nth: "?E ! j = Promise_store_enery (?C ! j) (frame_input cfg j (?gs ! j))"
    if "j < length ?gs" for j
    using that by simp
  have first: "?E ! 0 =
      Promise_store_enery
        (checked_main_job cfg 0 (?gs ! 0)
           (Some (Job cp2k_settings_guess (frame_input cfg 0 (?gs ! 0)) None)))
        (frame_input cfg 0 (?gs ! 0))"
    if "0 < length ?gs"
  proof -
    from that obtain g0 rest where r: "?gs = g0 # rest"
      by (cases ?gs) auto
    have "?C ! 0 = checked_main_job cfg 0 (?gs ! 0)
           (Some (Job cp2k_settings_guess (frame_input cfg 0 (?gs ! 0)) None))"
      unfolding r using chained_nth_0 [of cfg 0 g0 rest] by simp
    with nth [OF that] show ?thesis by simp
  qed
  have chain: "\<exists>g. ?E ! j =
              Promise_store_enery (checked_main_job cfg j (?gs ! j) g)
                (frame_input cfg j (?gs ! j)) \<and>
            ?E ! Suc j =
              Promise_store_enery
                (checked_main_job cfg (Suc j) (?gs ! Suc j)
                   (Some (checked_main_job cfg j (?gs ! j) g)))
                (frame_input cfg (Suc j) (?gs ! Suc j))"
    if "Suc j < length ?gs" for j
  proof -
    from that have jl: "j < length ?gs" by simp
    from chained_nth_main [OF jl, of cfg 0 None]
    obtain g where g: "?C ! j = checked_main_job cfg j (?gs ! j) g"
      by auto
    from chained_nth_Suc [OF that, of cfg 0 None] g
    have "?C ! Suc j = checked_main_job cfg (Suc j) (?gs ! Suc j)
            (Some (checked_main_job cfg j (?gs ! j) g))"
      by simp
    with nth [OF jl] nth [OF that] g show ?thesis
      by (intro exI [of _ g]) simp
  qed
  from cm len first chain
  show "\<exists>orbitals energies.
           calculate_mos cfg f5 = Inr (orbitals, energies) \<and>
           length energies = length (geometries cfg) \<and>
           (0 < length (geometries cfg) \<longrightarrow>
              energies ! 0 =
                Promise_store_enery
                  (checked_main_job cfg 0 (geometries cfg ! 0)
                     (Some (Job cp2k_settings_guess (frame_input cfg 0 (geometries cfg ! 0)) None)))
                  (frame_input cfg 0 (geometries cfg ! 0))) \<and>
           (\<forall>j. Suc j < length (geometries cfg) \<longrightarrow>
              (\<exists>g. energies ! j =
                     Promise_store_enery (checked_main_job cfg j (geometries cfg ! j) g)
                       (frame_input cfg j (geometries cfg ! j)) \<and>
                   energies ! Suc j =
                     Promise_store_enery
                       (checked_main_job cfg (Suc j) (geometries cfg ! Suc j)
                          (Some (checked_main_job cfg j (geometries cfg ! j) g)))
                       (frame_input cfg (Suc j) (geometries cfg ! Suc j))))"
    by blast
next
  let ?gs = "nac_all_geometries ncfg"
  let ?C = "nac_chained ncfg 0 ?gs None"
  let ?P = "map Nac_orbitals ?C"
  from nac_loop_chained [OF assms(4,5), of ?gs nf5 0 "[]" None] assms(6,7)
  obtain guess' where
    "nac_calculate_mos_loop ncfg nf5 0 ?gs ([], None) = Inr (?P, guess')"
    by auto
  then have cm: "nac_calculate_mos ncfg nf5 = Inr ?P"
    by (simp add: nac_calculate_mos_def)
  have len: "length ?P = length ?gs" by simp
  have first: "?P ! 0 = Nac_orbitals (nac_main_job ncfg 0 (?gs ! 0) None)"
    if "0 < length ?gs"
  proof -
    from that obtain g0 rest where r: "?gs = g0 # rest"
      by (cases ?gs) auto
    show ?thesis
      unfolding r by (simp add: Let_def)
  qed
  have chain: "\<exists>g. ?P ! j = Nac_orbitals (nac_main_job ncfg j (?gs ! j) g) \<and>
            ?P ! Suc j =
              Nac_orbitals (nac_main_job ncfg (Suc j) (?gs ! Suc j)
                              (Some (nac_main_job ncfg j (?gs ! j) g)))"
    if "Suc j < length ?gs" for j
  proof -
    from that have jl: "j < length ?gs" by simp
    from nac_chained_nth_main [OF jl, of ncfg 0 None]
    obtain g where g: "?C ! j = nac_main_job ncfg j (?gs ! j) g"
      by auto
    from nac_chained_nth_Suc [OF that, of ncfg 0 None] g
    have "?C ! Suc j = nac_main_job ncfg (Suc j) (?gs ! Suc j)
            (Some (nac_main_job ncfg j (?gs ! j) g))"
      by simp
    with jl that g show ?thesis
      by (intro exI [of _ g]) simp
  qed
  from cm len first chain
  show "\<exists>paths.
           nac_calculate_mos ncfg nf5 = Inr paths \<and>
           length paths = length (nac_all_geometries ncfg) \<and>
           (0 < length (nac_all_geometries ncfg) \<longrightarrow>
              paths ! 0 = Nac_orbitals (nac_main_job ncfg 0 (nac_all_geometries ncfg ! 0) None)) \<and>
           (\<forall>j. Suc j < length (nac_all_geometries ncfg) \<longrightarrow>
              (\<exists>g. paths ! j = Nac_orbitals (nac_main_job ncfg j (nac_all_geometries ncfg ! j) g) \<and>
                   paths ! Suc j =
                     Nac_orbitals
                       (nac_main_job ncfg (Suc j) (nac_all_geometries ncfg ! Suc j)
                          (Some (nac_main_job ncfg j (nac_all_geometries ncfg ! j) g)))))"
    by blast
qed

theorem guess_propagation_witness:
  "length (geometries cfg_two_frames) = 2 \<and>
   (\<exists>orbitals energies.
      calculate_mos cfg_two_frames Map.empty = Inr (orbitals, energies) \<and>
      energies =
        [Promise_store_enery
           (checked_main_job cfg_two_frames 0 ''geometry 0''
              (Some (Job cp2k_settings_guess (frame_input cfg_two_frames 0 ''geometry 0'') None)))
           (frame_input cfg_two_frames 0 ''geometry 0''),
         Promise_store_enery
           (checked_main_job cfg_two_frames 1 ''geometry 1''
              (Some (checked_main_job cfg_two_frames 0 ''geometry 0''
                 (Some (Job cp2k_settings_guess (frame_input cfg_two_frames 0 ''geometry 0'') None)))))
           (frame_input cfg_two_frames 1 ''geometry 1'')]) \<and>
   nac_calculate_mos ncfg_two_frames Map.empty =
     Inr [Nac_orbitals (nac_main_job ncfg_two_frames 0 ''geometry 0'' None),
          Nac_orbitals (nac_main_job ncfg_two_frames 1 ''geometry 1''
                          (Some (nac_main_job ncfg_two_frames 0 ''geometry 0'' None)))]"
proof -
  have h1: "calc_new_wf_guess_on_points cfg_two_frames = Some []"
    by (simp add: cfg_two_frames_def)
  have h2: "\<forall>j < length (geometries cfg_two_frames).
      \<not> is_data_in_hdf5 Map.empty (predicate_of cfg_two_frames (int j + enumerate_from cfg_two_frames))"
    by (simp add: is_data_in_hdf5_def predicate_of_def node_MOs_of_def)
  have h3: "length (geometries cfg_two_frames) \<le> length (folders cfg_two_frames)"
    by (simp add: cfg_two_frames_def)
  have h4: "nac_calc_new_wf_guess_on_points ncfg_two_frames = []"
    by (simp add: ncfg_two_frames_def)
  have h5: "nac_package_name ncfg_two_frames = ''cp2k''"
    by (simp add: ncfg_two_frames_def)
  have h6: "\<forall>j < length (nac_all_geometries ncfg_two_frames).
      search_data_in_hdf5 ncfg_two_frames Map.empty (int j + nac_enumerate_from ncfg_two_frames) = None"
    by (simp add: search_data_in_hdf5_def create_properties_path_def Let_def)
  have h7: "length (nac_all_geometries ncfg_two_frames) \<le> length (nac_folders ncfg_two_frames)"
    by (simp add: ncfg_two_frames_def)
  have g: "geometries cfg_two_frames = [''geometry 0'', ''geometry 1'']"
    by (simp add: cfg_two_frames_def)
  have ng: "nac_all_geometries ncfg_two_frames = [''geometry 0'', ''geometry 1'']"
    by (simp add: ncfg_two_frames_def)
  have two: "xs = [xs ! 0, xs ! 1]" if "length xs = 2" for xs :: "'a list"
  proof -
    from that obtain a b where "xs = [a, b]"
      by (cases xs; cases "tl xs") auto
    then show ?thesis by simp
  qed
  from guess_propagation [OF h1 h2 h3 h4 h5 h6 h7]
  obtain orbitals energies paths where
    a: "calculate_mos cfg_two_frames Map.empty = Inr (orbitals, energies)"
       "length energies = length (geometries cfg_two_frames)"
       "0 < length (geometries cfg_two_frames) \<longrightarrow>
          energies ! 0 =
            Promise_store_enery
              (checked_main_job cfg_two_frames 0 (geometries cfg_two_frames ! 0)
                 (Some (Job cp2k_settings_guess
                          (frame_input cfg_two_frames 0 (geometries cfg_two_frames ! 0)) None)))
              (frame_input cfg_two_frames 0 (geometries cfg_two_frames ! 0))"
       "\<forall>j. Suc j < length (geometries cfg_two_frames) \<longrightarrow>
          (\<exists>g. energies ! j =
                 Promise_store_enery
                   (checked_main_job cfg_two_frames j (geometries cfg_two_frames ! j) g)
                   (frame_input cfg_two_frames j (geometries cfg_two_frames ! j)) \<and>
               energies ! Suc j =
                 Promise_store_enery
                   (checked_main_job cfg_two_frames (Suc j) (geometries cfg_two_frames ! Suc j)
                      (Some (checked_main_job cfg_two_frames j (geometries cfg_two_frames ! j) g)))
                   (frame_input cfg_two_frames (Suc j) (geometries cfg_two_frames ! Suc j)))" and
    b: "nac_calculate_mos ncfg_two_frames Map.empty = Inr paths"
       "length paths = length (nac_all_geometries ncfg_two_frames)"
       "0 < length (nac_all_geometries ncfg_two_frames) \<longrightarrow>
          paths ! 0 =
            Nac_orbitals (nac_main_job ncfg_two_frames 0 (nac_all_geometries ncfg_two_frames ! 0) None)"
       "\<forall>j. Suc j < length (nac_all_geometries ncfg_two_frames) \<longrightarrow>
          (\<exists>g. paths ! j =
                 Nac_orbitals (nac_main_job ncfg_two_frames j (nac_all_geometries ncfg_two_frames ! j) g) \<and>
               paths ! Suc j =
                 Nac_orbitals
                   (nac_main_job ncfg_two_frames (Suc j) (nac_all_geometries ncfg_two_frames ! Suc j)
                      (Some (nac_main_job ncfg_two_frames j (nac_all_geometries ncfg_two_frames ! j) g))))"
    by blast
  let ?p0 = "checked_main_job cfg_two_frames 0 ''geometry 0''
               (Some (Job cp2k_settings_guess (frame_input cfg_two_frames 0 ''geometry 0'') None))"
  from a(3) have e0: "energies ! 0 =
      Promise_store_enery ?p0 (frame_input cfg_two_frames 0 ''geometry 0'')"
    by (simp add: g)
  from a(4) [rule_format, of 0] obtain gg where
    e0': "energies ! 0 =
       Promise_store_enery (checked_main_job cfg_two_frames 0 ''geometry 0'' gg)
         (frame_input cfg_two_frames 0 ''geometry 0'')" and
    e1': "energies ! 1 =
       Promise_store_enery
         (checked_main_job cfg_two_frames 1 ''geometry 1''
            (Some (checked_main_job cfg_two_frames 0 ''geometry 0'' gg)))
         (frame_input cfg_two_frames 1 ''geometry 1'')"
    by (auto simp: g)
  from e0 e0' have "checked_main_job cfg_two_frames 0 ''geometry 0'' gg = ?p0"
    by simp
  with e1' have e1: "energies ! 1 =
       Promise_store_enery (checked_main_job cfg_two_frames 1 ''geometry 1'' (Some ?p0))
         (frame_input cfg_two_frames 1 ''geometry 1'')"
    by simp
  from a(2) have le: "length energies = 2" by (simp add: g)
  have E: "energies =
        [Promise_store_enery ?p0 (frame_input cfg_two_frames 0 ''geometry 0''),
         Promise_store_enery (checked_main_job cfg_two_frames 1 ''geometry 1'' (Some ?p0))
           (frame_input cfg_two_frames 1 ''geometry 1'')]"
    using two [OF le] e0 e1 by simp
  let ?q0 = "nac_main_job ncfg_two_frames 0 ''geometry 0'' None"
  from b(3) have p0: "paths ! 0 = Nac_orbitals ?q0"
    by (simp add: ng)
  from b(4) [rule_format, of 0] obtain ng' where
    p0': "paths ! 0 = Nac_orbitals (nac_main_job ncfg_two_frames 0 ''geometry 0'' ng')" and
    p1': "paths ! 1 =
       Nac_orbitals (nac_main_job ncfg_two_frames 1 ''geometry 1''
                       (Some (nac_main_job ncfg_two_frames 0 ''geometry 0'' ng')))"
    by (auto simp: ng)
  from p0 p0' have "nac_main_job ncfg_two_frames 0 ''geometry 0'' ng' = ?q0"
    by simp
  with p1' have p1: "paths ! 1 =
       Nac_orbitals (nac_main_job ncfg_two_frames 1 ''geometry 1'' (Some ?q0))"
    by simp
  from b(2) have lp: "length paths = 2" by (simp add: ng)
  have P: "paths = [Nac_orbitals ?q0,
                    Nac_orbitals (nac_main_job ncfg_two_frames 1 ''geometry 1'' (Some ?q0))]"
    using two [OF lp] p0 p1 by simp
  from a(1) E b(1) P show ?thesis
    by (simp add: g)
qed


subsection \<open>Restart points\<close>

text \<open>
  C4, as the claim states it, fails: at a restart point the main job is not built with
  \<open>guess_job = None\<close>. With a prior handle present, frame 1 of a run whose restart list is
  \<open>[1]\<close> gets a guess-only job that is itself started from the prior handle, and a main
  job started from that guess-only job.
\<close>

theorem restart_point_job_counterexample:
  "calculate_mos_step cfg_restart_at_1 Map.empty 1 ''geometry 1'' ([], [], Some prior_handle) =
     Inr ([Promise_store_MOs
             (checked_main_job cfg_restart_at_1 1 ''geometry 1''
                (Some (Job cp2k_settings_guess (frame_input cfg_restart_at_1 1 ''geometry 1'')
                         (Some prior_handle))))
             (frame_input cfg_restart_at_1 1 ''geometry 1'')],
          [Promise_store_enery
             (checked_main_job cfg_restart_at_1 1 ''geometry 1''
                (Some (Job cp2k_settings_guess (frame_input cfg_restart_at_1 1 ''geometry 1'')
                         (Some prior_handle))))
             (frame_input cfg_restart_at_1 1 ''geometry 1'')],
          Some (checked_main_job cfg_restart_at_1 1 ''geometry 1''
                  (Some (Job cp2k_settings_guess (frame_input cfg_restart_at_1 1 ''geometry 1'')
                           (Some prior_handle)))))"
proof -
  have a: "\<not> is_data_in_hdf5 Map.empty
              (predicate_of cfg_restart_at_1 (int 1 + enumerate_from cfg_restart_at_1))"
    by (simp add: is_data_in_hdf5_def predicate_of_def node_MOs_of_def)
  have b: "1 < length (folders cfg_restart_at_1)"
    by (simp add: cfg_restart_at_1_def cfg_two_frames_def)
  have c: "calc_new_wf_guess_on_points cfg_restart_at_1 = Some [1]"
    by (simp add: cfg_restart_at_1_def)
  have d: "enumerate_from cfg_restart_at_1 = 0" "compute_orbitals_flag cfg_restart_at_1"
    by (simp_all add: cfg_restart_at_1_def cfg_two_frames_def)
  from calculate_mos_step_fresh [OF a b c, of "''geometry 1''" "[]" "[]" "Some prior_handle"]
  show ?thesis by (simp add: Let_def d)
qed

text \<open>
  C4, amended, for the frame loop of \<open>calculate_mos\<close> only: when the loop reaches a frame
  whose index is in the restart list and whose artifacts are not in the file, it builds a
  guess-only job first, with the loop's current \<open>guess_job\<close> as its guess, whatever that is
  (the handle left by the last frame computed before it, or \<open>None\<close> if no frame was), and
  then the main job of the frame with that guess-only job as its \<open>guess_job\<close>. Both
  schedulers do so. The job that \<open>schedule_check\<close> builds after an SCF warning is not a step
  of this loop and is outside this statement.
\<close>

theorem restart_point_job:
  assumes "calc_new_wf_guess_on_points cfg = Some pts"
    and "int j + enumerate_from cfg \<in> set pts"
    and "\<not> is_data_in_hdf5 f5 (predicate_of cfg (int j + enumerate_from cfg))"
    and "j < length (folders cfg)"
    and "int i + nac_enumerate_from ncfg \<in> set (nac_calc_new_wf_guess_on_points ncfg)"
    and "search_data_in_hdf5 ncfg nf5 (int i + nac_enumerate_from ncfg) = None"
    and "i < length (nac_folders ncfg)"
    and "nac_package_name ncfg = ''cp2k''"
  shows "calculate_mos_step cfg f5 j gs (orbitals, energies, guess) =
           Inr (orbitals @
                  [if compute_orbitals_flag cfg
                   then Promise_store_MOs
                          (checked_main_job cfg j gs
                             (Some (Job cp2k_settings_guess (frame_input cfg j gs) guess)))
                          (frame_input cfg j gs)
                   else None_entry],
                energies @
                  [Promise_store_enery
                     (checked_main_job cfg j gs
                        (Some (Job cp2k_settings_guess (frame_input cfg j gs) guess)))
                     (frame_input cfg j gs)],
                Some (checked_main_job cfg j gs
                        (Some (Job cp2k_settings_guess (frame_input cfg j gs) guess)))) \<and>
         nac_calculate_mos_step ncfg nf5 i ngs (paths, nguess) =
           Inr (paths @ [Nac_orbitals (nac_main_job ncfg i ngs (Some (nac_guess_job ncfg i ngs nguess)))],
                Some (nac_main_job ncfg i ngs (Some (nac_guess_job ncfg i ngs nguess))))"
  using calculate_mos_step_fresh [OF assms(3,4,1), of gs orbitals energies guess]
    nac_step_fresh [OF assms(6,7,8), of ngs paths nguess] assms(2,5)
  by (simp add: Let_def)

theorem restart_point_job_witness:
  "calculate_mos_step cfg_restart_at_1 Map.empty 1 ''geometry 1'' ([], [], Some prior_handle) =
     Inr ([] @
            [if compute_orbitals_flag cfg_restart_at_1
             then Promise_store_MOs
                    (checked_main_job cfg_restart_at_1 1 ''geometry 1''
                       (Some (Job cp2k_settings_guess (frame_input cfg_restart_at_1 1 ''geometry 1'')
                                (Some prior_handle))))
                    (frame_input cfg_restart_at_1 1 ''geometry 1'')
             else None_entry],
          [] @
            [Promise_store_enery
               (checked_main_job cfg_restart_at_1 1 ''geometry 1''
                  (Some (Job cp2k_settings_guess (frame_input cfg_restart_at_1 1 ''geometry 1'')
                           (Some prior_handle))))
               (frame_input cfg_restart_at_1 1 ''geometry 1'')],
          Some (checked_main_job cfg_restart_at_1 1 ''geometry 1''
                  (Some (Job cp2k_settings_guess (frame_input cfg_restart_at_1 1 ''geometry 1'')
                           (Some prior_handle))))) \<and>
   nac_calculate_mos_step ncfg_restart_at_1 Map.empty 1 ''geometry 1'' ([], Some nac_prior_handle) =
     Inr ([] @ [Nac_orbitals (nac_main_job ncfg_restart_at_1 1 ''geometry 1''
                                (Some (nac_guess_job ncfg_restart_at_1 1 ''geometry 1'' (Some nac_prior_handle))))],
          Some (nac_main_job ncfg_restart_at_1 1 ''geometry 1''
                  (Some (nac_guess_job ncfg_restart_at_1 1 ''geometry 1'' (Some nac_prior_handle)))))"
proof -
  have h1: "calc_new_wf_guess_on_points cfg_restart_at_1 = Some [1]"
    by (simp add: cfg_restart_at_1_def)
  have h2: "int 1 + enumerate_from cfg_restart_at_1 \<in> set [1]"
    by (simp add: cfg_restart_at_1_def cfg_two_frames_def)
  have h3: "\<not> is_data_in_hdf5 Map.empty
              (predicate_of cfg_restart_at_1 (int 1 + enumerate_from cfg_restart_at_1))"
    by (simp add: is_data_in_hdf5_def predicate_of_def node_MOs_of_def)
  have h4: "1 < length (folders cfg_restart_at_1)"
    by (simp add: cfg_restart_at_1_def cfg_two_frames_def)
  have h5: "int 1 + nac_enumerate_from ncfg_restart_at_1
              \<in> set (nac_calc_new_wf_guess_on_points ncfg_restart_at_1)"
    by (simp add: ncfg_restart_at_1_def ncfg_two_frames_def)
  have h6: "search_data_in_hdf5 ncfg_restart_at_1 Map.empty (int 1 + nac_enumerate_from ncfg_restart_at_1) = None"
    by (simp add: search_data_in_hdf5_def create_properties_path_def Let_def)
  have h7: "1 < length (nac_folders ncfg_restart_at_1)"
    by (simp add: ncfg_restart_at_1_def ncfg_two_frames_def)
  have h8: "nac_package_name ncfg_restart_at_1 = ''cp2k''"
    by (simp add: ncfg_restart_at_1_def ncfg_two_frames_def)
  show ?thesis
    by (rule restart_point_job [OF h1 h2 h3 h4 h5 h6 h7 h8])
qed

lemma calculate_mos_step_pts_cong:
  assumes "(int j + enumerate_from cfg \<in> set pts1) = (int j + enumerate_from cfg \<in> set pts2)"
  shows "calculate_mos_step (cfg\<lparr>calc_new_wf_guess_on_points := Some pts1\<rparr>) f5 j gs st =
         calculate_mos_step (cfg\<lparr>calc_new_wf_guess_on_points := Some pts2\<rparr>) f5 j gs st"
  using assms
  by (cases st)
     (simp add: calculate_mos_step_def compute_orbitals_def predicate_of_def node_MOs_of_def
        node_energy_of_def mo_root_def frame_input_def Let_def)

lemma calculate_mos_loop_pts_cong:
  assumes "\<forall>i < length rest. (int (j + i) + enumerate_from cfg \<in> set pts1) = (int (j + i) + enumerate_from cfg \<in> set pts2)"
  shows "calculate_mos_loop (cfg\<lparr>calc_new_wf_guess_on_points := Some pts1\<rparr>) f5 j rest st =
         calculate_mos_loop (cfg\<lparr>calc_new_wf_guess_on_points := Some pts2\<rparr>) f5 j rest st"
  using assms
proof (induction rest arbitrary: j st)
  case Nil
  then show ?case by simp
next
  case (Cons gs rest)
  from Cons.prems have h: "(int j + enumerate_from cfg \<in> set pts1) = (int j + enumerate_from cfg \<in> set pts2)"
    by force
  have "\<forall>i < length rest. (int (Suc j + i) + enumerate_from cfg \<in> set pts1) = (int (Suc j + i) + enumerate_from cfg \<in> set pts2)"
  proof (intro allI impI)
    fix i assume "i < length rest"
    then have "Suc i < length (gs # rest)" by simp
    with Cons.prems have "(int (j + Suc i) + enumerate_from cfg \<in> set pts1) = (int (j + Suc i) + enumerate_from cfg \<in> set pts2)"
      by blast
    then show "(int (Suc j + i) + enumerate_from cfg \<in> set pts1) = (int (Suc j + i) + enumerate_from cfg \<in> set pts2)"
      by simp
  qed
  from Cons.IH [OF this] show ?case
    by (simp add: calculate_mos_step_pts_cong [OF h] split: sum.splits)
qed

lemma restart_nanoqm:
  assumes "set pts1 \<inter> {enumerate_from cfg ..< enumerate_from cfg + int (length (geometries cfg))} =
           set pts2 \<inter> {enumerate_from cfg ..< enumerate_from cfg + int (length (geometries cfg))}"
  shows "calculate_mos (cfg\<lparr>calc_new_wf_guess_on_points := Some pts1\<rparr>) f5 =
         calculate_mos (cfg\<lparr>calc_new_wf_guess_on_points := Some pts2\<rparr>) f5"
proof -
  let ?I = "{enumerate_from cfg ..< enumerate_from cfg + int (length (geometries cfg))}"
  have "(int (0 + i) + enumerate_from cfg \<in> set pts1) = (int (0 + i) + enumerate_from cfg \<in> set pts2)"
    if "i < length (geometries cfg)" for i
  proof -
    from that have "int (0 + i) + enumerate_from cfg \<in> ?I" by simp
    with assms show ?thesis by blast
  qed
  then have "\<forall>i < length (geometries cfg).
      (int (0 + i) + enumerate_from cfg \<in> set pts1) = (int (0 + i) + enumerate_from cfg \<in> set pts2)"
    by blast
  from calculate_mos_loop_pts_cong [OF this] show ?thesis
    by (simp add: calculate_mos_def)
qed

lemma nac_step_pts_cong:
  assumes "(int j + nac_enumerate_from cfg \<in> set pts1) = (int j + nac_enumerate_from cfg \<in> set pts2)"
  shows "nac_calculate_mos_step (cfg\<lparr>nac_calc_new_wf_guess_on_points := pts1\<rparr>) f5 j gs st =
         nac_calculate_mos_step (cfg\<lparr>nac_calc_new_wf_guess_on_points := pts2\<rparr>) f5 j gs st"
  using assms
  by (cases st)
     (simp add: nac_calculate_mos_step_def search_data_in_hdf5_def create_properties_path_def Let_def
        cong: sum.case_cong if_cong)

lemma nac_loop_pts_cong:
  assumes "\<forall>i < length rest. (int (j + i) + nac_enumerate_from cfg \<in> set pts1) = (int (j + i) + nac_enumerate_from cfg \<in> set pts2)"
  shows "nac_calculate_mos_loop (cfg\<lparr>nac_calc_new_wf_guess_on_points := pts1\<rparr>) f5 j rest st =
         nac_calculate_mos_loop (cfg\<lparr>nac_calc_new_wf_guess_on_points := pts2\<rparr>) f5 j rest st"
  using assms
proof (induction rest arbitrary: j st)
  case Nil
  then show ?case by simp
next
  case (Cons gs rest)
  from Cons.prems have h: "(int j + nac_enumerate_from cfg \<in> set pts1) = (int j + nac_enumerate_from cfg \<in> set pts2)"
    by force
  have "\<forall>i < length rest. (int (Suc j + i) + nac_enumerate_from cfg \<in> set pts1) = (int (Suc j + i) + nac_enumerate_from cfg \<in> set pts2)"
  proof (intro allI impI)
    fix i assume "i < length rest"
    then have "Suc i < length (gs # rest)" by simp
    with Cons.prems have "(int (j + Suc i) + nac_enumerate_from cfg \<in> set pts1) = (int (j + Suc i) + nac_enumerate_from cfg \<in> set pts2)"
      by blast
    then show "(int (Suc j + i) + nac_enumerate_from cfg \<in> set pts1) = (int (Suc j + i) + nac_enumerate_from cfg \<in> set pts2)"
      by simp
  qed
  from Cons.IH [OF this] show ?case
    by (simp add: nac_step_pts_cong [OF h] split: sum.splits)
qed

lemma restart_nac:
  assumes "set pts1 \<inter> {nac_enumerate_from cfg ..< nac_enumerate_from cfg + int (length (nac_all_geometries cfg))} =
           set pts2 \<inter> {nac_enumerate_from cfg ..< nac_enumerate_from cfg + int (length (nac_all_geometries cfg))}"
  shows "nac_calculate_mos (cfg\<lparr>nac_calc_new_wf_guess_on_points := pts1\<rparr>) f5 =
         nac_calculate_mos (cfg\<lparr>nac_calc_new_wf_guess_on_points := pts2\<rparr>) f5"
proof -
  let ?I = "{nac_enumerate_from cfg ..< nac_enumerate_from cfg + int (length (nac_all_geometries cfg))}"
  have "(int (0 + i) + nac_enumerate_from cfg \<in> set pts1) = (int (0 + i) + nac_enumerate_from cfg \<in> set pts2)"
    if "i < length (nac_all_geometries cfg)" for i
  proof -
    from that have "int (0 + i) + nac_enumerate_from cfg \<in> ?I" by simp
    with assms show ?thesis by blast
  qed
  then have "\<forall>i < length (nac_all_geometries cfg).
      (int (0 + i) + nac_enumerate_from cfg \<in> set pts1) = (int (0 + i) + nac_enumerate_from cfg \<in> set pts2)"
    by blast
  from nac_loop_pts_cong [OF this] show ?thesis
    by (simp add: nac_calculate_mos_def)
qed

text \<open>
  C8, as the claim states it, fails: neither scheduler checks the restart indices. With
  two frames (indices 0 and 1) and the restart list \<open>[7]\<close>, both return a graph, not an
  error.
\<close>

theorem restart_index_out_of_range_counterexample:
  "\<not> isl (calculate_mos cfg_restart_out_of_range Map.empty) \<and>
   \<not> isl (nac_calculate_mos ncfg_restart_out_of_range Map.empty)"
proof -
  have "calculate_mos cfg_restart_out_of_range Map.empty =
        calculate_mos (cfg_two_frames\<lparr>calc_new_wf_guess_on_points := Some []\<rparr>) Map.empty"
    unfolding cfg_restart_out_of_range_def
    by (rule restart_nanoqm) (simp add: cfg_two_frames_def)
  moreover have "\<not> isl (calculate_mos (cfg_two_frames\<lparr>calc_new_wf_guess_on_points := Some []\<rparr>) Map.empty)"
    by (simp add: calculate_mos_def calculate_mos_step_def compute_orbitals_def cfg_two_frames_def
        is_data_in_hdf5_def predicate_of_def node_MOs_of_def Let_def)
  moreover have "nac_calculate_mos ncfg_restart_out_of_range Map.empty =
        nac_calculate_mos (ncfg_two_frames\<lparr>nac_calc_new_wf_guess_on_points := []\<rparr>) Map.empty"
    unfolding ncfg_restart_out_of_range_def
    by (rule restart_nac) (simp add: ncfg_two_frames_def)
  moreover have "\<not> isl (nac_calculate_mos (ncfg_two_frames\<lparr>nac_calc_new_wf_guess_on_points := []\<rparr>) Map.empty)"
    by (simp add: nac_calculate_mos_def nac_calculate_mos_step_def search_data_in_hdf5_def
        create_properties_path_def call_schedule_qm_def ncfg_two_frames_def Let_def)
  ultimately show ?thesis by simp
qed

text \<open>
  C8, amended: a restart index outside the range of frame indices
  \<open>enumerate_from, ..., enumerate_from + N - 1\<close> is not checked and raises nothing; it is
  ignored. The graph built is the one built from the restart list with the out-of-range
  indices removed.
\<close>

theorem restart_index_out_of_range_ignored:
  "calculate_mos (cfg\<lparr>calc_new_wf_guess_on_points := Some pts\<rparr>) f5 =
     calculate_mos
       (cfg\<lparr>calc_new_wf_guess_on_points :=
              Some (filter (\<lambda>k. enumerate_from cfg \<le> k \<and>
                                k < enumerate_from cfg + int (length (geometries cfg))) pts)\<rparr>) f5 \<and>
   nac_calculate_mos (ncfg\<lparr>nac_calc_new_wf_guess_on_points := npts\<rparr>) nf5 =
     nac_calculate_mos
       (ncfg\<lparr>nac_calc_new_wf_guess_on_points :=
               filter (\<lambda>k. nac_enumerate_from ncfg \<le> k \<and>
                           k < nac_enumerate_from ncfg + int (length (nac_all_geometries ncfg))) npts\<rparr>) nf5"
proof
  show "calculate_mos (cfg\<lparr>calc_new_wf_guess_on_points := Some pts\<rparr>) f5 =
     calculate_mos
       (cfg\<lparr>calc_new_wf_guess_on_points :=
              Some (filter (\<lambda>k. enumerate_from cfg \<le> k \<and>
                                k < enumerate_from cfg + int (length (geometries cfg))) pts)\<rparr>) f5"
    by (rule restart_nanoqm) auto
  show "nac_calculate_mos (ncfg\<lparr>nac_calc_new_wf_guess_on_points := npts\<rparr>) nf5 =
     nac_calculate_mos
       (ncfg\<lparr>nac_calc_new_wf_guess_on_points :=
               filter (\<lambda>k. nac_enumerate_from ncfg \<le> k \<and>
                           k < nac_enumerate_from ncfg + int (length (nac_all_geometries ncfg))) npts\<rparr>) nf5"
    by (rule restart_nac) auto
qed

subsection \<open>The existence check on a composite key\<close>

text \<open>
  C7. The check on the two paths of the orbitals succeeds iff both are in the file, and
  then returns exactly these paths. When the coefficients are missing (whether or not the
  eigenvalues are there) the check fails and the frame is recomputed: its main job is
  built, entered in the result and left as the next handle. The first three conjuncts are
  \<open>search_data_in_hdf5\<close> and the loop of the earlier scheduler; the last two are the
  current scheduler, whose check is \<open>is_data_in_hdf5\<close>.
\<close>

theorem composite_key_atomicity:
  "search_data_in_hdf5 ncfg hdf i =
     (if (\<forall>p \<in> set (create_properties_path ncfg i). hdf p \<noteq> None)
      then Some (create_properties_path ncfg i) else None) \<and>
   (hdf (create_properties_path ncfg i ! 1) = None \<longrightarrow> search_data_in_hdf5 ncfg hdf i = None) \<and>
   (hdf (create_properties_path ncfg (int j + nac_enumerate_from ncfg) ! 1) = None \<and>
    j < length (nac_folders ncfg) \<and> nac_package_name ncfg = ''cp2k'' \<longrightarrow>
      nac_calculate_mos_step ncfg hdf j gs (paths, nguess) =
        Inr (paths @
               [Nac_orbitals
                  (nac_main_job ncfg j gs
                     (if int j + nac_enumerate_from ncfg \<in> set (nac_calc_new_wf_guess_on_points ncfg)
                      then Some (nac_guess_job ncfg j gs nguess) else nguess))],
             Some (nac_main_job ncfg j gs
                     (if int j + nac_enumerate_from ncfg \<in> set (nac_calc_new_wf_guess_on_points ncfg)
                      then Some (nac_guess_job ncfg j gs nguess) else nguess)))) \<and>
   is_data_in_hdf5 hdf (Key_list ps) = (\<forall>p \<in> set ps. hdf p \<noteq> None) \<and>
   (compute_orbitals_flag cfg \<and> hdf (node_MOs_of cfg (int j + enumerate_from cfg) ! 1) = None \<and>
    j < length (folders cfg) \<and> calc_new_wf_guess_on_points cfg = Some pts \<longrightarrow>
      calculate_mos_step cfg hdf j gs (orbitals, energies, guess) =
        Inr (orbitals @
               [Promise_store_MOs
                  (checked_main_job cfg j gs
                     (if int j + enumerate_from cfg \<in> set pts \<or> guess = None
                      then Some (Job cp2k_settings_guess (frame_input cfg j gs) guess) else guess))
                  (frame_input cfg j gs)],
             energies @
               [Promise_store_enery
                  (checked_main_job cfg j gs
                     (if int j + enumerate_from cfg \<in> set pts \<or> guess = None
                      then Some (Job cp2k_settings_guess (frame_input cfg j gs) guess) else guess))
                  (frame_input cfg j gs)],
             Some (checked_main_job cfg j gs
                     (if int j + enumerate_from cfg \<in> set pts \<or> guess = None
                      then Some (Job cp2k_settings_guess (frame_input cfg j gs) guess) else guess))))"
proof (intro conjI impI)
  show "search_data_in_hdf5 ncfg hdf i =
     (if (\<forall>p \<in> set (create_properties_path ncfg i). hdf p \<noteq> None)
      then Some (create_properties_path ncfg i) else None)"
    by (simp add: search_data_in_hdf5_def Let_def list_all_iff)
next
  assume "hdf (create_properties_path ncfg i ! 1) = None"
  then show "search_data_in_hdf5 ncfg hdf i = None"
    by (simp add: search_data_in_hdf5_def create_properties_path_def Let_def)
next
  assume a: "hdf (create_properties_path ncfg (int j + nac_enumerate_from ncfg) ! 1) = None \<and>
    j < length (nac_folders ncfg) \<and> nac_package_name ncfg = ''cp2k''"
  then have "hdf (create_properties_path ncfg (int j + nac_enumerate_from ncfg) ! 1) = None"
    by simp
  then have s: "search_data_in_hdf5 ncfg hdf (int j + nac_enumerate_from ncfg) = None"
    by (simp add: search_data_in_hdf5_def create_properties_path_def Let_def)
  from a have jl: "j < length (nac_folders ncfg)" and pk: "nac_package_name ncfg = ''cp2k''"
    by simp_all
  from nac_step_fresh [OF s jl pk, of gs paths nguess]
  show "nac_calculate_mos_step ncfg hdf j gs (paths, nguess) =
        Inr (paths @
               [Nac_orbitals
                  (nac_main_job ncfg j gs
                     (if int j + nac_enumerate_from ncfg \<in> set (nac_calc_new_wf_guess_on_points ncfg)
                      then Some (nac_guess_job ncfg j gs nguess) else nguess))],
             Some (nac_main_job ncfg j gs
                     (if int j + nac_enumerate_from ncfg \<in> set (nac_calc_new_wf_guess_on_points ncfg)
                      then Some (nac_guess_job ncfg j gs nguess) else nguess)))"
    by (simp only: Let_def)
next
  show "is_data_in_hdf5 hdf (Key_list ps) = (\<forall>p \<in> set ps. hdf p \<noteq> None)"
    by (simp add: is_data_in_hdf5_def list_all_iff)
next
  assume a: "compute_orbitals_flag cfg \<and> hdf (node_MOs_of cfg (int j + enumerate_from cfg) ! 1) = None \<and>
    j < length (folders cfg) \<and> calc_new_wf_guess_on_points cfg = Some pts"
  then have fl: "compute_orbitals_flag cfg"
    and "hdf (node_MOs_of cfg (int j + enumerate_from cfg) ! 1) = None"
    by simp_all
  then have nc: "\<not> is_data_in_hdf5 hdf (predicate_of cfg (int j + enumerate_from cfg))"
    by (simp add: is_data_in_hdf5_def predicate_of_def node_MOs_of_def)
  from a have jl: "j < length (folders cfg)" and pts: "calc_new_wf_guess_on_points cfg = Some pts"
    by simp_all
  from calculate_mos_step_fresh [OF nc jl pts, of gs orbitals energies guess] fl
  show "calculate_mos_step cfg hdf j gs (orbitals, energies, guess) =
        Inr (orbitals @
               [Promise_store_MOs
                  (checked_main_job cfg j gs
                     (if int j + enumerate_from cfg \<in> set pts \<or> guess = None
                      then Some (Job cp2k_settings_guess (frame_input cfg j gs) guess) else guess))
                  (frame_input cfg j gs)],
             energies @
               [Promise_store_enery
                  (checked_main_job cfg j gs
                     (if int j + enumerate_from cfg \<in> set pts \<or> guess = None
                      then Some (Job cp2k_settings_guess (frame_input cfg j gs) guess) else guess))
                  (frame_input cfg j gs)],
             Some (checked_main_job cfg j gs
                     (if int j + enumerate_from cfg \<in> set pts \<or> guess = None
                      then Some (Job cp2k_settings_guess (frame_input cfg j gs) guess) else guess)))"
    by (simp only: Let_def if_True)
qed

theorem composite_key_atomicity_witness:
  "create_properties_path ncfg_two_frames 0 =
     [''proj/point_0/cp2k/mo/eigenvalues'', ''proj/point_0/cp2k/mo/coefficients''] \<and>
   f5_eigenvalues_only ''proj/point_0/cp2k/mo/eigenvalues'' = Some [1] \<and>
   f5_eigenvalues_only ''proj/point_0/cp2k/mo/coefficients'' = None \<and>
   search_data_in_hdf5 ncfg_two_frames f5_eigenvalues_only 0 = None \<and>
   nac_calculate_mos_step ncfg_two_frames f5_eigenvalues_only 0 ''geometry 0'' ([], None) =
     Inr ([Nac_orbitals (nac_main_job ncfg_two_frames 0 ''geometry 0'' None)],
          Some (nac_main_job ncfg_two_frames 0 ''geometry 0'' None)) \<and>
   \<not> is_data_in_hdf5 f5_eigenvalues_only (Key_list (node_MOs_of cfg_two_frames 0)) \<and>
   calculate_mos_step cfg_two_frames f5_eigenvalues_only 0 ''geometry 0'' ([], [], None) =
     Inr ([Promise_store_MOs
             (checked_main_job cfg_two_frames 0 ''geometry 0''
                (Some (Job cp2k_settings_guess (frame_input cfg_two_frames 0 ''geometry 0'') None)))
             (frame_input cfg_two_frames 0 ''geometry 0'')],
          [Promise_store_enery
             (checked_main_job cfg_two_frames 0 ''geometry 0''
                (Some (Job cp2k_settings_guess (frame_input cfg_two_frames 0 ''geometry 0'') None)))
             (frame_input cfg_two_frames 0 ''geometry 0'')],
          Some (checked_main_job cfg_two_frames 0 ''geometry 0''
                  (Some (Job cp2k_settings_guess (frame_input cfg_two_frames 0 ''geometry 0'') None))))"
proof -
  have e: "create_properties_path ncfg_two_frames 0 =
     [''proj/point_0/cp2k/mo/eigenvalues'', ''proj/point_0/cp2k/mo/coefficients'']"
    by (simp add: ncfg_two_frames_def path_simps)
  have n: "node_MOs_of cfg_two_frames 0 =
     [''proj/point_0/cp2k/mo/eigenvalues'', ''proj/point_0/cp2k/mo/coefficients'']"
    by (simp add: cfg_two_frames_def path_simps)
  have c: "nac_enumerate_from ncfg_two_frames = 0" "nac_package_name ncfg_two_frames = ''cp2k''"
    "length (nac_folders ncfg_two_frames) = 2" "enumerate_from cfg_two_frames = 0"
    "compute_orbitals_flag cfg_two_frames" "length (folders cfg_two_frames) = 2"
    "calc_new_wf_guess_on_points cfg_two_frames = Some []"
    "nac_calc_new_wf_guess_on_points ncfg_two_frames = []"
    by (simp_all add: ncfg_two_frames_def cfg_two_frames_def)
  have f: "f5_eigenvalues_only ''proj/point_0/cp2k/mo/eigenvalues'' = Some [1]"
    "f5_eigenvalues_only ''proj/point_0/cp2k/mo/coefficients'' = None"
    by (simp_all add: f5_eigenvalues_only_def)
  from composite_key_atomicity [where ncfg = ncfg_two_frames and hdf = f5_eigenvalues_only
      and i = 0 and j = 0 and gs = "''geometry 0''" and paths = "[]" and nguess = None
      and ps = "node_MOs_of cfg_two_frames 0" and cfg = cfg_two_frames and pts = "[]"
      and orbitals = "[]" and energies = "[]" and guess = None]
  show ?thesis
    by (simp add: e n c f)
qed


section \<open>Properties of the scheduled functions\<close>

subsection \<open>Removal of the orbital log in store_MOs\<close>

text \<open>
  C9, as the claim states it, fails: a failure of the removal is not swallowed. With no
  file matching \<open>mo_*MOLog\<close> in the working directory, \<open>store_MOs\<close> raises IndexError.
\<close>

theorem store_MOs_cleanup_counterexample:
  "store_MOs cfg_two_frames (frame_input cfg_two_frames 0 ''geometry 0'') r_clean
     (files_without_log, Map.empty) = Inl IndexError"
  by (simp add: store_MOs_def r_clean_def r_warned_def files_without_log_def fnmatch_filter_def
      Let_def)

text \<open>
  C9, amended: after handing the orbitals to persistence, \<open>store_MOs\<close> removes from the
  working directory of the job the first file whose name matches \<open>mo_*MOLog\<close> and returns
  the paths of the orbitals. A failure of this removal is neither caught nor logged: with
  no matching file the function raises IndexError, with no such directory
  FileNotFoundError, and the error reaches the caller.
\<close>

theorem store_MOs_cleanup:
  "(files (qm_work_dir r) = Some names \<and> fnmatch_filter names ''mo_*MOLog'' = m # ms \<longrightarrow>
      store_MOs cfg d r (files, hdf) =
        Inr (node_MOs d, files(qm_work_dir r \<mapsto> remove1 m names),
             dump_orbitals_to_hdf5 (qm_orbitals r) hdf (project_name cfg) (job_name d))) \<and>
   (files (qm_work_dir r) = Some names \<and> fnmatch_filter names ''mo_*MOLog'' = [] \<longrightarrow>
      store_MOs cfg d r (files, hdf) = Inl IndexError) \<and>
   (files (qm_work_dir r) = None \<longrightarrow> store_MOs cfg d r (files, hdf) = Inl FileNotFoundError)"
  by (simp add: store_MOs_def os_remove_def Let_def)

theorem store_MOs_cleanup_witness:
  "store_MOs cfg_two_frames (frame_input cfg_two_frames 0 ''geometry 0'') r_clean
     (files_with_log, Map.empty) =
     Inr ([''proj/point_0/cp2k/mo/eigenvalues'', ''proj/point_0/cp2k/mo/coefficients''],
          [''/scratch/point_0'' \<mapsto> [''point_0.out'']],
          [''proj/point_0/cp2k/mo/eigenvalues'' \<mapsto> [1],
           ''proj/point_0/cp2k/mo/coefficients'' \<mapsto> [2]]) \<and>
   store_MOs cfg_two_frames (frame_input cfg_two_frames 0 ''geometry 0'') r_clean
     (files_without_log, Map.empty) = Inl IndexError \<and>
   store_MOs cfg_two_frames (frame_input cfg_two_frames 0 ''geometry 0'') r_clean
     (Map.empty, Map.empty) = Inl FileNotFoundError"
proof -
  let ?d = "frame_input cfg_two_frames 0 ''geometry 0''"
  have a: "files_with_log (qm_work_dir r_clean) = Some [''point_0.out'', ''mo_coeff-1_0.MOLog''] \<and>
           fnmatch_filter [''point_0.out'', ''mo_coeff-1_0.MOLog''] ''mo_*MOLog'' = [''mo_coeff-1_0.MOLog'']"
    by (simp add: files_with_log_def r_clean_def r_warned_def fnmatch_filter_def)
  have b: "files_without_log (qm_work_dir r_clean) = Some [''point_0.out''] \<and>
           fnmatch_filter [''point_0.out''] ''mo_*MOLog'' = []"
    by (simp add: files_without_log_def r_clean_def r_warned_def fnmatch_filter_def)
  have c: "qm_work_dir r_clean = ''/scratch/point_0''" "qm_orbitals r_clean = ([1], [2])"
    "project_name cfg_two_frames = ''proj''"
    by (simp_all add: r_clean_def r_warned_def cfg_two_frames_def)
  have n: "node_MOs ?d = [''proj/point_0/cp2k/mo/eigenvalues'', ''proj/point_0/cp2k/mo/coefficients'']"
    by (simp add: frame_input_def cfg_two_frames_def path_simps Let_def)
  have j: "job_name ?d = ''point_0''"
    by (simp add: frame_input_def cfg_two_frames_def path_simps Let_def)
  have dmp: "dump_orbitals_to_hdf5 ([1], [2]) Map.empty ''proj'' ''point_0'' =
      [''proj/point_0/cp2k/mo/eigenvalues'' \<mapsto> [1], ''proj/point_0/cp2k/mo/coefficients'' \<mapsto> [2]]"
    by (simp add: dump_orbitals_to_hdf5_def store_arrays_in_hdf5_def path_simps Let_def)
  have fl: "files_with_log(''/scratch/point_0'' \<mapsto> [''point_0.out'']) =
      [''/scratch/point_0'' \<mapsto> [''point_0.out'']]"
    by (simp add: files_with_log_def)
  from store_MOs_cleanup [where files = files_with_log and r = r_clean
      and names = "[''point_0.out'', ''mo_coeff-1_0.MOLog'']" and m = "''mo_coeff-1_0.MOLog''"
      and ms = "[]" and cfg = cfg_two_frames and d = ?d and hdf = Map.empty] a
  have 1: "store_MOs cfg_two_frames ?d r_clean (files_with_log, Map.empty) =
     Inr ([''proj/point_0/cp2k/mo/eigenvalues'', ''proj/point_0/cp2k/mo/coefficients''],
          [''/scratch/point_0'' \<mapsto> [''point_0.out'']],
          [''proj/point_0/cp2k/mo/eigenvalues'' \<mapsto> [1],
           ''proj/point_0/cp2k/mo/coefficients'' \<mapsto> [2]])"
    by (simp add: c n j dmp fl)
  from store_MOs_cleanup [where files = files_without_log and r = r_clean
      and names = "[''point_0.out'']" and cfg = cfg_two_frames and d = ?d and hdf = Map.empty] b
  have 2: "store_MOs cfg_two_frames ?d r_clean (files_without_log, Map.empty) = Inl IndexError"
    by simp
  from store_MOs_cleanup [where files = Map.empty and r = r_clean and cfg = cfg_two_frames
      and d = ?d and hdf = Map.empty]
  have 3: "store_MOs cfg_two_frames ?d r_clean (Map.empty, Map.empty) = Inl FileNotFoundError"
    by simp
  from 1 2 3 show ?thesis by simp
qed

subsection \<open>Acceptance and rejection in schedule_check\<close>

lemma schedule_check_accept:
  "ignore_warnings cfg \<or> \<not> scf_warned r \<Longrightarrow>
   schedule_check r cfg d files = Inr (Return_result r, cfg, files)"
  by (auto simp: schedule_check_def)

lemma schedule_check_reject:
  assumes "\<not> ignore_warnings cfg" and "scf_warned r"
    and "files (point_dir d) = Some names"
    and "fnmatch_filter names ''mo*MOLog'' = m # ms"
    and "calc_new_wf_guess_on_points cfg = Some pts"
  shows "schedule_check r cfg d files =
     Inr (Return_promise
            (Job cp2k_settings_main (d\<lparr>job_files := create_file_names (point_dir d) (k_idx d)\<rparr>)
               (Some (Job cp2k_settings_guess
                        (d\<lparr>job_files := create_file_names (point_dir d) (k_idx d)\<rparr>) None))),
          cfg\<lparr>calc_new_wf_guess_on_points := Some (pts @ [k_idx d])\<rparr>,
          files(point_dir d \<mapsto> remove1 m names))"
  using assms
  by (simp add: schedule_check_def compute_orbitals_def prepare_job_cp2k_def os_remove_def Let_def)

text \<open>
  C5, as the claim states it, fails in its second half: with the warning present and
  validation on, but no file matching \<open>mo*MOLog\<close> in the directory of the point, the
  removal of the stale log raises IndexError and no corrective job is produced.
\<close>

theorem schedule_check_counterexample:
  "\<not> ignore_warnings cfg_two_frames \<and> scf_warned r_warned \<and>
   schedule_check r_warned cfg_two_frames (frame_input cfg_two_frames 0 ''geometry 0'')
     files_without_log = Inl IndexError"
  by (simp add: schedule_check_def scf_warned_def r_warned_def cfg_two_frames_def
      files_without_log_def fnmatch_filter_def frame_input_def Let_def)

text \<open>
  C5, amended: a completed job is accepted (its result returned unchanged, the
  configuration and the files untouched, no corrective job) iff validation is bypassed
  or its warnings hold no SCF convergence warning. When the warning is present and
  validation is not bypassed, the job is rejected: if the directory of the point holds a
  file matching \<open>mo*MOLog\<close> (and the restart list is a list), the first such file is
  removed, the index of the frame is appended to the restart list and a corrective job is
  produced instead of the result, a main job started from a guess-only job that has no
  guess; if the directory holds no such file, the check raises IndexError and no
  corrective job is produced.
\<close>

theorem schedule_check_accepts_iff:
  "(schedule_check r cfg d files = Inr (Return_result r, cfg, files)) =
     (ignore_warnings cfg \<or> \<not> scf_warned r) \<and>
   (\<not> ignore_warnings cfg \<and> scf_warned r \<and> files (point_dir d) = Some names \<and>
    fnmatch_filter names ''mo*MOLog'' = m # ms \<and> calc_new_wf_guess_on_points cfg = Some pts \<longrightarrow>
      schedule_check r cfg d files =
        Inr (Return_promise
               (Job cp2k_settings_main (d\<lparr>job_files := create_file_names (point_dir d) (k_idx d)\<rparr>)
                  (Some (Job cp2k_settings_guess
                           (d\<lparr>job_files := create_file_names (point_dir d) (k_idx d)\<rparr>) None))),
             cfg\<lparr>calc_new_wf_guess_on_points := Some (pts @ [k_idx d])\<rparr>,
             files(point_dir d \<mapsto> remove1 m names))) \<and>
   (\<not> ignore_warnings cfg \<and> scf_warned r \<and> files (point_dir d) = Some names \<and>
    fnmatch_filter names ''mo*MOLog'' = [] \<longrightarrow>
      schedule_check r cfg d files = Inl IndexError)"
proof (intro conjI impI)
  show "(schedule_check r cfg d files = Inr (Return_result r, cfg, files)) =
     (ignore_warnings cfg \<or> \<not> scf_warned r)"
  proof
    assume acc: "schedule_check r cfg d files = Inr (Return_result r, cfg, files)"
    show "ignore_warnings cfg \<or> \<not> scf_warned r"
    proof (rule ccontr)
      assume "\<not> (ignore_warnings cfg \<or> \<not> scf_warned r)"
      then have "\<not> ignore_warnings cfg \<and> scf_warned r" by simp
      with acc show False
        by (auto simp: schedule_check_def Let_def
            split: option.splits list.splits sum.splits)
    qed
  next
    assume "ignore_warnings cfg \<or> \<not> scf_warned r"
    then show "schedule_check r cfg d files = Inr (Return_result r, cfg, files)"
      by (rule schedule_check_accept)
  qed
next
  assume "\<not> ignore_warnings cfg \<and> scf_warned r \<and> files (point_dir d) = Some names \<and>
    fnmatch_filter names ''mo*MOLog'' = m # ms \<and> calc_new_wf_guess_on_points cfg = Some pts"
  then show "schedule_check r cfg d files =
        Inr (Return_promise
               (Job cp2k_settings_main (d\<lparr>job_files := create_file_names (point_dir d) (k_idx d)\<rparr>)
                  (Some (Job cp2k_settings_guess
                           (d\<lparr>job_files := create_file_names (point_dir d) (k_idx d)\<rparr>) None))),
             cfg\<lparr>calc_new_wf_guess_on_points := Some (pts @ [k_idx d])\<rparr>,
             files(point_dir d \<mapsto> remove1 m names))"
    by (simp add: schedule_check_reject)
next
  assume "\<not> ignore_warnings cfg \<and> scf_warned r \<and> files (point_dir d) = Some names \<and>
    fnmatch_filter names ''mo*MOLog'' = []"
  then show "schedule_check r cfg d files = Inl IndexError"
    by (simp add: schedule_check_def)
qed

theorem schedule_check_accepts_iff_witness:
  "\<not> scf_warned r_clean \<and> scf_warned r_warned \<and> \<not> ignore_warnings cfg_two_frames \<and>
   schedule_check r_clean cfg_two_frames (frame_input cfg_two_frames 0 ''geometry 0'') files_with_log =
     Inr (Return_result r_clean, cfg_two_frames, files_with_log) \<and>
   schedule_check r_warned cfg_two_frames (frame_input cfg_two_frames 0 ''geometry 0'') files_with_log \<noteq>
     Inr (Return_result r_warned, cfg_two_frames, files_with_log) \<and>
   schedule_check r_warned cfg_two_frames (frame_input cfg_two_frames 0 ''geometry 0'') files_with_log =
     Inr (Return_promise
            (Job cp2k_settings_main (frame_input cfg_two_frames 0 ''geometry 0'')
               (Some (Job cp2k_settings_guess (frame_input cfg_two_frames 0 ''geometry 0'') None))),
          cfg_two_frames\<lparr>calc_new_wf_guess_on_points := Some [0]\<rparr>,
          files_with_log(''/scratch/point_0'' \<mapsto> [''point_0.out''])) \<and>
   schedule_check r_warned cfg_two_frames (frame_input cfg_two_frames 0 ''geometry 0'')
     files_without_log = Inl IndexError"
proof -
  let ?d = "frame_input cfg_two_frames 0 ''geometry 0''"
  have w: "\<not> scf_warned r_clean" "scf_warned r_warned" "\<not> ignore_warnings cfg_two_frames"
    by (simp_all add: scf_warned_def r_clean_def r_warned_def cfg_two_frames_def)
  have p: "point_dir ?d = ''/scratch/point_0''" "k_idx ?d = 0"
    "calc_new_wf_guess_on_points cfg_two_frames = Some []"
    by (simp_all add: cfg_two_frames_def)
  have jf: "?d\<lparr>job_files := create_file_names (point_dir ?d) (k_idx ?d)\<rparr> = ?d"
    by (simp add: frame_input_def Let_def cfg_two_frames_def)
  have f: "files_with_log ''/scratch/point_0'' = Some [''point_0.out'', ''mo_coeff-1_0.MOLog'']"
    "fnmatch_filter [''point_0.out'', ''mo_coeff-1_0.MOLog''] ''mo*MOLog'' = [''mo_coeff-1_0.MOLog'']"
    "files_without_log ''/scratch/point_0'' = Some [''point_0.out'']"
    "fnmatch_filter [''point_0.out''] ''mo*MOLog'' = []"
    by (simp_all add: files_with_log_def files_without_log_def fnmatch_filter_def)
  note t1 = schedule_check_accepts_iff [where r = r_clean and cfg = cfg_two_frames and d = ?d
      and files = files_with_log]
  note t2 = schedule_check_accepts_iff [where r = r_warned and cfg = cfg_two_frames and d = ?d
      and files = files_with_log and names = "[''point_0.out'', ''mo_coeff-1_0.MOLog'']"
      and m = "''mo_coeff-1_0.MOLog''" and ms = "[]" and pts = "[]"]
  note t3 = schedule_check_accepts_iff [where r = r_warned and cfg = cfg_two_frames and d = ?d
      and files = files_without_log and names = "[''point_0.out'']"]
  from t1 w have 1: "schedule_check r_clean cfg_two_frames ?d files_with_log =
     Inr (Return_result r_clean, cfg_two_frames, files_with_log)"
    by simp
  from t2 w have 2: "schedule_check r_warned cfg_two_frames ?d files_with_log \<noteq>
     Inr (Return_result r_warned, cfg_two_frames, files_with_log)"
    by simp
  from t2 w p f have "schedule_check r_warned cfg_two_frames ?d files_with_log =
     Inr (Return_promise
            (Job cp2k_settings_main (?d\<lparr>job_files := create_file_names (point_dir ?d) (k_idx ?d)\<rparr>)
               (Some (Job cp2k_settings_guess
                        (?d\<lparr>job_files := create_file_names (point_dir ?d) (k_idx ?d)\<rparr>) None))),
          cfg_two_frames\<lparr>calc_new_wf_guess_on_points := Some [0]\<rparr>,
          files_with_log(''/scratch/point_0'' \<mapsto> [''point_0.out'']))"
    by simp
  then have 3: "schedule_check r_warned cfg_two_frames ?d files_with_log =
     Inr (Return_promise
            (Job cp2k_settings_main ?d (Some (Job cp2k_settings_guess ?d None))),
          cfg_two_frames\<lparr>calc_new_wf_guess_on_points := Some [0]\<rparr>,
          files_with_log(''/scratch/point_0'' \<mapsto> [''point_0.out'']))"
    by (simp only: jf)
  from t3 w p f have 4: "schedule_check r_warned cfg_two_frames ?d files_without_log = Inl IndexError"
    by simp
  from 1 2 3 4 w show ?thesis by simp
qed


subsection \<open>The corrective retry\<close>

lemma run_promise_Job_submitted:
  assumes "run_promise sv (Job s d g) w = Inr (r, w1)"
  shows "w_submitted w1 \<noteq> [] \<and> last (w_submitted w1) = (s, d)"
proof (cases g)
  case None
  with assms show ?thesis
    by (auto simp: submit_def split: sum.splits)
next
  case (Some p)
  with assms show ?thesis
    by (auto simp: submit_def split: sum.splits)
qed

text \<open>
  C3, as the claim states it, fails in its last part: after the corrective retry nothing
  is checked any more. With a solver that warns on every job, the promise that
  \<open>calculate_mos\<close> builds for the first frame evaluates to a result, not to an error, and
  that result still carries the SCF warning. The solver ran four times: the guess-only
  job and the main job of the original attempt, and the guess-only job and the main job
  of the retry.
\<close>

theorem single_retry_counterexample:
  "scf_warned r_warned \<and>
   run_promise solver_always_warns
     (checked_main_job cfg_two_frames 0 ''geometry 0''
        (Some (Job cp2k_settings_guess (frame_input cfg_two_frames 0 ''geometry 0'') None)))
     w_start =
     Inr (r_warned,
          \<lparr> w_cfg = cfg_two_frames\<lparr>calc_new_wf_guess_on_points := Some [0]\<rparr>,
            w_files = [''/scratch/point_0'' \<mapsto> [''mo_coeff-1_0.MOLog'']],
            w_submitted =
              [(cp2k_settings_guess, frame_input cfg_two_frames 0 ''geometry 0''),
               (cp2k_settings_main, frame_input cfg_two_frames 0 ''geometry 0''),
               (cp2k_settings_guess, frame_input cfg_two_frames 0 ''geometry 0''),
               (cp2k_settings_main, frame_input cfg_two_frames 0 ''geometry 0'')] \<rparr>)"
proof -
  let ?d = "frame_input cfg_two_frames 0 ''geometry 0''"
  have w: "scf_warned r_warned"
    by (simp add: scf_warned_def r_warned_def)
  have pd: "folders cfg_two_frames ! 0 = ''/scratch/point_0''" "enumerate_from cfg_two_frames = 0"
    by (simp_all add: cfg_two_frames_def)
  have jf: "?d\<lparr>job_files := create_file_names ''/scratch/point_0'' 0\<rparr> = ?d"
    by (simp add: frame_input_def Let_def cfg_two_frames_def)
  have rw: "r_warned\<lparr>qm_work_dir := ''/scratch/point_0''\<rparr> = r_warned"
    by (simp add: r_warned_def)
  have c: "\<not> ignore_warnings cfg_two_frames" "calc_new_wf_guess_on_points cfg_two_frames = Some []"
    by (simp_all add: cfg_two_frames_def)
  have fm: "fnmatch_filter [''mo_coeff-1_0.MOLog''] ''mo*MOLog'' = [''mo_coeff-1_0.MOLog'']"
    by (simp add: fnmatch_filter_def)
  have "run_promise solver_always_warns
     (Scheduled_check (Job cp2k_settings_main ?d (Some (Job cp2k_settings_guess ?d None))) ?d)
     w_start =
     Inr (r_warned,
          \<lparr> w_cfg = cfg_two_frames\<lparr>calc_new_wf_guess_on_points := Some [0]\<rparr>,
            w_files = [''/scratch/point_0'' \<mapsto> [''mo_coeff-1_0.MOLog'']],
            w_submitted =
              [(cp2k_settings_guess, ?d), (cp2k_settings_main, ?d),
               (cp2k_settings_guess, ?d), (cp2k_settings_main, ?d)] \<rparr>)"
    by (simp add: submit_def solver_always_warns_def w_start_def schedule_check_def
        compute_orbitals_def prepare_job_cp2k_def os_remove_def Let_def w pd jf rw c fm)
  with w show ?thesis
    by (simp add: checked_main_job_def)
qed

text \<open>
  C3, amended: when the main job of a frame and its corrective retry both end with the
  SCF warning (validation not bypassed, the stale log present), the check of the frame
  submits exactly one guess-only job without guess and one further main job after the
  original main job, so the main job of the frame is submitted exactly twice and never a
  third time. The result of the retry is not checked again: it is returned as the result
  of the frame although it carries the warning, and no error is raised.
\<close>

theorem single_corrective_retry:
  assumes "run_promise sv (Job cp2k_settings_main d g) w = Inr (r, w1)"
    and "scf_warned r"
    and "\<not> ignore_warnings (w_cfg w1)"
    and "calc_new_wf_guess_on_points (w_cfg w1) = Some pts"
    and "w_files w1 (point_dir d) = Some names"
    and "fnmatch_filter names ''mo*MOLog'' = m # ms"
    and "sv cp2k_settings_guess (d\<lparr>job_files := create_file_names (point_dir d) (k_idx d)\<rparr>) None
           ((w_files w1)(point_dir d \<mapsto> remove1 m names)) = Inr (rg, fg)"
    and "sv cp2k_settings_main (d\<lparr>job_files := create_file_names (point_dir d) (k_idx d)\<rparr>) (Some rg) fg =
           Inr (r2, f2)"
    and "scf_warned r2"
  shows "w_submitted w1 \<noteq> [] \<and> last (w_submitted w1) = (cp2k_settings_main, d) \<and>
         run_promise sv (Scheduled_check (Job cp2k_settings_main d g) d) w =
           Inr (r2,
                w1\<lparr>w_cfg := (w_cfg w1)\<lparr>calc_new_wf_guess_on_points := Some (pts @ [k_idx d])\<rparr>,
                   w_files := f2,
                   w_submitted :=
                     w_submitted w1 @
                     [(cp2k_settings_guess, d\<lparr>job_files := create_file_names (point_dir d) (k_idx d)\<rparr>),
                      (cp2k_settings_main, d\<lparr>job_files := create_file_names (point_dir d) (k_idx d)\<rparr>)]\<rparr>)"
proof -
  let ?d' = "d\<lparr>job_files := create_file_names (point_dir d) (k_idx d)\<rparr>"
  let ?c = "(w_cfg w1)\<lparr>calc_new_wf_guess_on_points := Some (pts @ [k_idx d])\<rparr>"
  let ?f = "(w_files w1)(point_dir d \<mapsto> remove1 m names)"
  have chk: "schedule_check r (w_cfg w1) d (w_files w1) =
      Inr (Return_promise (Job cp2k_settings_main ?d' (Some (Job cp2k_settings_guess ?d' None))), ?c, ?f)"
    using assms(2-6) by (simp add: schedule_check_reject)
  have retry: "run_promise sv (Job cp2k_settings_main ?d' (Some (Job cp2k_settings_guess ?d' None)))
                 (w1\<lparr>w_cfg := ?c, w_files := ?f\<rparr>) =
      Inr (r2, w1\<lparr>w_cfg := ?c, w_files := f2,
                  w_submitted := w_submitted w1 @ [(cp2k_settings_guess, ?d'), (cp2k_settings_main, ?d')]\<rparr>)"
    using assms(7,8) by (simp add: submit_def)
  have "run_promise sv (Scheduled_check (Job cp2k_settings_main d g) d) w =
      Inr (r2, w1\<lparr>w_cfg := ?c, w_files := f2,
                  w_submitted := w_submitted w1 @ [(cp2k_settings_guess, ?d'), (cp2k_settings_main, ?d')]\<rparr>)"
    using assms(1) chk retry by simp
  with run_promise_Job_submitted [OF assms(1)] show ?thesis
    by simp
qed

theorem single_corrective_retry_witness:
  "run_promise solver_always_warns
     (Job cp2k_settings_main (frame_input cfg_two_frames 0 ''geometry 0'')
        (Some (Job cp2k_settings_guess (frame_input cfg_two_frames 0 ''geometry 0'') None)))
     w_start =
     Inr (r_warned,
          \<lparr> w_cfg = cfg_two_frames,
            w_files = [''/scratch/point_0'' \<mapsto> [''mo_coeff-1_0.MOLog'']],
            w_submitted =
              [(cp2k_settings_guess, frame_input cfg_two_frames 0 ''geometry 0''),
               (cp2k_settings_main, frame_input cfg_two_frames 0 ''geometry 0'')] \<rparr>) \<and>
   scf_warned r_warned \<and>
   run_promise solver_always_warns
     (Scheduled_check
        (Job cp2k_settings_main (frame_input cfg_two_frames 0 ''geometry 0'')
           (Some (Job cp2k_settings_guess (frame_input cfg_two_frames 0 ''geometry 0'') None)))
        (frame_input cfg_two_frames 0 ''geometry 0''))
     w_start =
     Inr (r_warned,
          \<lparr> w_cfg = cfg_two_frames\<lparr>calc_new_wf_guess_on_points := Some [0]\<rparr>,
            w_files = [''/scratch/point_0'' \<mapsto> [''mo_coeff-1_0.MOLog'']],
            w_submitted =
              [(cp2k_settings_guess, frame_input cfg_two_frames 0 ''geometry 0''),
               (cp2k_settings_main, frame_input cfg_two_frames 0 ''geometry 0''),
               (cp2k_settings_guess, frame_input cfg_two_frames 0 ''geometry 0''),
               (cp2k_settings_main, frame_input cfg_two_frames 0 ''geometry 0'')] \<rparr>)"
proof -
  let ?d = "frame_input cfg_two_frames 0 ''geometry 0''"
  let ?w1 = "\<lparr> w_cfg = cfg_two_frames,
               w_files = [''/scratch/point_0'' \<mapsto> [''mo_coeff-1_0.MOLog'']],
               w_submitted = [(cp2k_settings_guess, ?d), (cp2k_settings_main, ?d)] \<rparr>"
  have w: "scf_warned r_warned"
    by (simp add: scf_warned_def r_warned_def)
  have pd: "folders cfg_two_frames ! 0 = ''/scratch/point_0''" "enumerate_from cfg_two_frames = 0"
    by (simp_all add: cfg_two_frames_def)
  have jf: "?d\<lparr>job_files := create_file_names ''/scratch/point_0'' 0\<rparr> = ?d"
    by (simp add: frame_input_def Let_def cfg_two_frames_def)
  have rw: "r_warned\<lparr>qm_work_dir := ''/scratch/point_0''\<rparr> = r_warned"
    by (simp add: r_warned_def)
  have h1: "run_promise solver_always_warns
      (Job cp2k_settings_main ?d (Some (Job cp2k_settings_guess ?d None))) w_start = Inr (r_warned, ?w1)"
    by (simp add: submit_def solver_always_warns_def w_start_def pd rw)
  have h3: "\<not> ignore_warnings (w_cfg ?w1)"
    by (simp add: cfg_two_frames_def)
  have h4: "calc_new_wf_guess_on_points (w_cfg ?w1) = Some []"
    by (simp add: cfg_two_frames_def)
  have h5: "w_files ?w1 (point_dir ?d) = Some [''mo_coeff-1_0.MOLog'']"
    by (simp add: pd)
  have h6: "fnmatch_filter [''mo_coeff-1_0.MOLog''] ''mo*MOLog'' = ''mo_coeff-1_0.MOLog'' # []"
    by (simp add: fnmatch_filter_def)
  have h7: "solver_always_warns cp2k_settings_guess
      (?d\<lparr>job_files := create_file_names (point_dir ?d) (k_idx ?d)\<rparr>) None
      ((w_files ?w1)(point_dir ?d \<mapsto> remove1 ''mo_coeff-1_0.MOLog'' [''mo_coeff-1_0.MOLog''])) =
      Inr (r_warned, [''/scratch/point_0'' \<mapsto> [''mo_coeff-1_0.MOLog'']])"
    by (simp add: solver_always_warns_def pd rw)
  have h8: "solver_always_warns cp2k_settings_main
      (?d\<lparr>job_files := create_file_names (point_dir ?d) (k_idx ?d)\<rparr>) (Some r_warned)
      [''/scratch/point_0'' \<mapsto> [''mo_coeff-1_0.MOLog'']] =
      Inr (r_warned, [''/scratch/point_0'' \<mapsto> [''mo_coeff-1_0.MOLog'']])"
    by (simp add: solver_always_warns_def pd rw)
  note t = single_corrective_retry [OF h1 w h3 h4 h5 h6 h7 h8 w]
  have run: "run_promise solver_always_warns
      (Scheduled_check (Job cp2k_settings_main ?d (Some (Job cp2k_settings_guess ?d None))) ?d) w_start =
      Inr (r_warned,
           ?w1\<lparr>w_cfg := (w_cfg ?w1)\<lparr>calc_new_wf_guess_on_points := Some ([] @ [k_idx ?d])\<rparr>,
               w_files := [''/scratch/point_0'' \<mapsto> [''mo_coeff-1_0.MOLog'']],
               w_submitted :=
                 w_submitted ?w1 @
                 [(cp2k_settings_guess, ?d\<lparr>job_files := create_file_names (point_dir ?d) (k_idx ?d)\<rparr>),
                  (cp2k_settings_main, ?d\<lparr>job_files := create_file_names (point_dir ?d) (k_idx ?d)\<rparr>)]\<rparr>)"
    by (rule t [THEN conjunct2, THEN conjunct2])
  have eq: "?w1\<lparr>w_cfg := (w_cfg ?w1)\<lparr>calc_new_wf_guess_on_points := Some ([] @ [k_idx ?d])\<rparr>,
               w_files := [''/scratch/point_0'' \<mapsto> [''mo_coeff-1_0.MOLog'']],
               w_submitted :=
                 w_submitted ?w1 @
                 [(cp2k_settings_guess, ?d\<lparr>job_files := create_file_names (point_dir ?d) (k_idx ?d)\<rparr>),
                  (cp2k_settings_main, ?d\<lparr>job_files := create_file_names (point_dir ?d) (k_idx ?d)\<rparr>)]\<rparr> =
      \<lparr> w_cfg = cfg_two_frames\<lparr>calc_new_wf_guess_on_points := Some [0]\<rparr>,
        w_files = [''/scratch/point_0'' \<mapsto> [''mo_coeff-1_0.MOLog'']],
        w_submitted =
          [(cp2k_settings_guess, ?d), (cp2k_settings_main, ?d),
           (cp2k_settings_guess, ?d), (cp2k_settings_main, ?d)] \<rparr>"
    by (simp add: pd jf)
  from run have fin: "run_promise solver_always_warns
      (Scheduled_check (Job cp2k_settings_main ?d (Some (Job cp2k_settings_guess ?d None))) ?d) w_start =
      Inr (r_warned,
           \<lparr> w_cfg = cfg_two_frames\<lparr>calc_new_wf_guess_on_points := Some [0]\<rparr>,
             w_files = [''/scratch/point_0'' \<mapsto> [''mo_coeff-1_0.MOLog'']],
             w_submitted =
               [(cp2k_settings_guess, ?d), (cp2k_settings_main, ?d),
                (cp2k_settings_guess, ?d), (cp2k_settings_main, ?d)] \<rparr>)"
    by (simp only: eq)
  from h1 w fin show ?thesis by (intro conjI)
qed


section \<open>Properties of create_point_folder\<close>

lemma no_slash_str_nat: "CHR ''/'' \<notin> set (str_nat n)"
proof (induction n rule: str_nat.induct)
  case (1 n)
  have digit: "''0123456789'' ! m \<noteq> CHR ''/''" if "m < 10" for m :: nat
  proof -
    from that have "''0123456789'' ! m \<in> set ''0123456789''"
      by (intro nth_mem) simp
    then show ?thesis by auto
  qed
  show ?case
  proof (cases "n < 10")
    case True
    with digit [of n] show ?thesis
      by (subst str_nat.simps) auto
  next
    case False
    with 1 have "CHR ''/'' \<notin> set (str_nat (n div 10))" by simp
    moreover have "''0123456789'' ! (n mod 10) \<noteq> CHR ''/''"
      by (rule digit) simp
    ultimately show ?thesis using False
      by (subst str_nat.simps) auto
  qed
qed

lemma no_slash_str_int: "CHR ''/'' \<notin> set (str_int k)"
  by (simp add: str_int_def no_slash_str_nat)

lemma join_point: "join work_dir [''point_'' @ str_int k] = dir_prefix work_dir @ ''point_'' @ str_int k"
  by (simp add: join_def join2_def dir_prefix_def)

lemma is_under_append: "is_under d p \<Longrightarrow> \<exists>rest. p = d @ ''/'' @ rest"
proof -
  assume "is_under d p"
  then have "take (Suc (length d)) p = d @ ''/''" by (simp add: is_under_def)
  then have "p = (d @ ''/'') @ drop (Suc (length d)) p"
    by (metis append_take_drop_id)
  then show ?thesis by auto
qed

lemma is_under_trans: "is_under a b \<Longrightarrow> is_under b c \<Longrightarrow> is_under a c"
proof -
  assume "is_under a b" "is_under b c"
  then obtain r1 r2 where "b = a @ ''/'' @ r1" "c = b @ ''/'' @ r2"
    using is_under_append by blast
  then show ?thesis by (simp add: is_under_def)
qed

lemma is_under_irrefl: "\<not> is_under d d"
proof
  assume "is_under d d"
  then obtain r where "d = d @ ''/'' @ r" using is_under_append by blast
  then show False by simp
qed

lemma point_not_under:
  "\<not> is_under (join work_dir [''point_'' @ str_int j]) (join work_dir [''point_'' @ str_int k])"
proof
  assume "is_under (join work_dir [''point_'' @ str_int j]) (join work_dir [''point_'' @ str_int k])"
  then have "is_under (dir_prefix work_dir @ ''point_'' @ str_int j)
                      (dir_prefix work_dir @ ''point_'' @ str_int k)"
    by (simp only: join_point)
  from is_under_append [OF this] obtain r where
    "dir_prefix work_dir @ ''point_'' @ str_int k =
       (dir_prefix work_dir @ ''point_'' @ str_int j) @ ''/'' @ r"
    by blast
  then have "str_int k = str_int j @ ''/'' @ r" by simp
  then have "CHR ''/'' \<in> set (str_int k)" by simp
  with no_slash_str_int show False by blast
qed

lemma point_folder_step_result:
  fixes work_dir k files acc
  defines "d \<equiv> join work_dir [''point_'' @ str_int k]"
  shows "\<exists>files2. point_folder_step work_dir k (files, acc) = Inr (files2, acc @ [d]) \<and>
     files2 d = Some [] \<and>
     (files d \<noteq> None \<longrightarrow> (\<forall>p. is_under d p \<longrightarrow> files2 p = None)) \<and>
     (\<forall>p. files2 p \<noteq> None \<longrightarrow> files p \<noteq> None \<or> p = d \<or> is_under p d) \<and>
     (\<forall>p. files p \<noteq> None \<and> p \<noteq> d \<and> \<not> is_under d p \<longrightarrow> files2 p = files p)"
proof -
  have pfs: "point_folder_step work_dir k (files, acc) =
      (case (if files d \<noteq> None then rmtree d files else Inr files) of
         Inl e \<Rightarrow> Inl e
       | Inr files \<Rightarrow>
           (case makedirs d files of
              Inl e \<Rightarrow> Inl e
            | Inr files \<Rightarrow> Inr (files, acc @ [d])))"
    unfolding d_def point_folder_step_def Let_def prod.case by (rule refl)
  show ?thesis
proof (cases "files d = None")
  case True
  let ?f2 = "\<lambda>p. if p = d \<or> (p \<noteq> [] \<and> is_under p d \<and> files p = None) then Some [] else files p"
  have "point_folder_step work_dir k (files, acc) = Inr (?f2, acc @ [d])"
    using True by (simp add: pfs makedirs_def)
  moreover have "?f2 d = Some []" by simp
  moreover have "\<forall>p. ?f2 p \<noteq> None \<longrightarrow> files p \<noteq> None \<or> p = d \<or> is_under p d" by simp
  moreover have "\<forall>p. files p \<noteq> None \<and> p \<noteq> d \<and> \<not> is_under d p \<longrightarrow> ?f2 p = files p" by simp
  ultimately show ?thesis using True by blast
next
  case False
  let ?f1 = "\<lambda>p. if p = d \<or> is_under d p then None else files p"
  let ?f2 = "\<lambda>p. if p = d \<or> (p \<noteq> [] \<and> is_under p d \<and> ?f1 p = None) then Some [] else ?f1 p"
  have run: "point_folder_step work_dir k (files, acc) = Inr (?f2, acc @ [d])"
    using False by (simp add: pfs rmtree_def makedirs_def)
  have a: "?f2 d = Some []" by simp
  have b: "\<forall>p. is_under d p \<longrightarrow> ?f2 p = None"
  proof (intro allI impI)
    fix p assume u: "is_under d p"
    then have "p \<noteq> d" using is_under_irrefl by blast
    moreover have "\<not> is_under p d"
      using u is_under_trans is_under_irrefl by blast
    ultimately show "?f2 p = None" using u by simp
  qed
  have c: "\<forall>p. ?f2 p \<noteq> None \<longrightarrow> files p \<noteq> None \<or> p = d \<or> is_under p d"
    by (simp split: if_splits)
  have e: "\<forall>p. files p \<noteq> None \<and> p \<noteq> d \<and> \<not> is_under d p \<longrightarrow> ?f2 p = files p"
    by simp
  from run a b c e show ?thesis by blast
qed
qed

lemma nanoqm_folder_loop:
  "\<exists>files'.
     for_each (point_folder_step work_dir) ks (files, acc) =
       Inr (files', acc @ map (\<lambda>k. join work_dir [''point_'' @ str_int k]) ks) \<and>
     (\<forall>k \<in> set ks.
        files' (join work_dir [''point_'' @ str_int k]) = Some [] \<and>
        (files (join work_dir [''point_'' @ str_int k]) \<noteq> None \<longrightarrow>
           (\<forall>p. is_under (join work_dir [''point_'' @ str_int k]) p \<longrightarrow> files' p = None))) \<and>
     (\<forall>p. files' p \<noteq> None \<longrightarrow>
        files p \<noteq> None \<or>
        (\<exists>k \<in> set ks. p = join work_dir [''point_'' @ str_int k] \<or>
                      is_under p (join work_dir [''point_'' @ str_int k]))) \<and>
     (\<forall>p. files p \<noteq> None \<and>
          (\<forall>k \<in> set ks. p \<noteq> join work_dir [''point_'' @ str_int k] \<and>
                         \<not> is_under (join work_dir [''point_'' @ str_int k]) p) \<longrightarrow>
          files' p = files p)"
proof (induction ks arbitrary: files acc)
  case Nil
  then show ?case by simp
next
  case (Cons k ks)
  let ?D = "\<lambda>k. join work_dir [''point_'' @ str_int k]"
  from point_folder_step_result [of work_dir k files acc] obtain f2 where
    step: "point_folder_step work_dir k (files, acc) = Inr (f2, acc @ [?D k])" and
    s1: "f2 (?D k) = Some []" and
    s2: "files (?D k) \<noteq> None \<longrightarrow> (\<forall>p. is_under (?D k) p \<longrightarrow> f2 p = None)" and
    s3: "\<forall>p. f2 p \<noteq> None \<longrightarrow> files p \<noteq> None \<or> p = ?D k \<or> is_under p (?D k)" and
    s4: "\<forall>p. files p \<noteq> None \<and> p \<noteq> ?D k \<and> \<not> is_under (?D k) p \<longrightarrow> f2 p = files p"
    by blast
  from Cons.IH [of f2 "acc @ [?D k]"] obtain files' where
    run: "for_each (point_folder_step work_dir) ks (f2, acc @ [?D k]) =
            Inr (files', (acc @ [?D k]) @ map ?D ks)" and
    i1: "\<forall>j \<in> set ks. files' (?D j) = Some [] \<and>
           (f2 (?D j) \<noteq> None \<longrightarrow> (\<forall>p. is_under (?D j) p \<longrightarrow> files' p = None))" and
    i2: "\<forall>p. files' p \<noteq> None \<longrightarrow>
           f2 p \<noteq> None \<or> (\<exists>j \<in> set ks. p = ?D j \<or> is_under p (?D j))" and
    i3: "\<forall>p. f2 p \<noteq> None \<and> (\<forall>j \<in> set ks. p \<noteq> ?D j \<and> \<not> is_under (?D j) p) \<longrightarrow>
           files' p = f2 p"
    by blast
  have nu: "\<not> is_under (?D a) (?D b)" for a b
    by (rule point_not_under)
  have r: "for_each (point_folder_step work_dir) (k # ks) (files, acc) =
             Inr (files', acc @ map ?D (k # ks))"
    using step run by simp
  have head_exists: "files' (?D k) = Some []"
  proof (cases "\<exists>j \<in> set ks. ?D k = ?D j")
    case True
    then show ?thesis using i1 by auto
  next
    case False
    with nu have "\<forall>j \<in> set ks. ?D k \<noteq> ?D j \<and> \<not> is_under (?D j) (?D k)" by blast
    with i3 s1 have "files' (?D k) = f2 (?D k)" by simp
    with s1 show ?thesis by simp
  qed
  have head_wiped: "files' p = None" if ex: "files (?D k) \<noteq> None" and u: "is_under (?D k) p" for p
  proof (rule ccontr)
    assume "files' p \<noteq> None"
    with i2 have "f2 p \<noteq> None \<or> (\<exists>j \<in> set ks. p = ?D j \<or> is_under p (?D j))" by blast
    moreover from s2 ex u have "f2 p = None" by blast
    ultimately obtain j where "p = ?D j \<or> is_under p (?D j)" by blast
    then have "is_under (?D k) (?D j)"
      using u is_under_trans by blast
    with nu show False by blast
  qed
  have tail_kept: "f2 (?D j) \<noteq> None" if "files (?D j) \<noteq> None" for j
  proof (cases "?D j = ?D k")
    case True
    with s1 show ?thesis by simp
  next
    case False
    with s4 that nu have "f2 (?D j) = files (?D j)" by blast
    with that show ?thesis by simp
  qed
  have c1: "\<forall>j \<in> set (k # ks). files' (?D j) = Some [] \<and>
      (files (?D j) \<noteq> None \<longrightarrow> (\<forall>p. is_under (?D j) p \<longrightarrow> files' p = None))"
  proof
    fix j assume "j \<in> set (k # ks)"
    then consider "j = k" | "j \<in> set ks" by auto
    then show "files' (?D j) = Some [] \<and>
      (files (?D j) \<noteq> None \<longrightarrow> (\<forall>p. is_under (?D j) p \<longrightarrow> files' p = None))"
    proof cases
      case 1
      with head_exists head_wiped show ?thesis by blast
    next
      case 2
      with i1 tail_kept show ?thesis by blast
    qed
  qed
  have c2: "\<forall>p. files' p \<noteq> None \<longrightarrow>
      files p \<noteq> None \<or> (\<exists>j \<in> set (k # ks). p = ?D j \<or> is_under p (?D j))"
  proof (intro allI impI)
    fix p assume "files' p \<noteq> None"
    with i2 have "f2 p \<noteq> None \<or> (\<exists>j \<in> set ks. p = ?D j \<or> is_under p (?D j))" by blast
    with s3 show "files p \<noteq> None \<or> (\<exists>j \<in> set (k # ks). p = ?D j \<or> is_under p (?D j))"
      by auto
  qed
  have c3: "\<forall>p. files p \<noteq> None \<and>
      (\<forall>j \<in> set (k # ks). p \<noteq> ?D j \<and> \<not> is_under (?D j) p) \<longrightarrow> files' p = files p"
  proof (intro allI impI)
    fix p assume h: "files p \<noteq> None \<and> (\<forall>j \<in> set (k # ks). p \<noteq> ?D j \<and> \<not> is_under (?D j) p)"
    with s4 have e: "f2 p = files p" by simp
    with h i3 have "files' p = f2 p" by simp
    with e show "files' p = files p" by simp
  qed
  from r c1 c2 c3 show ?case by blast
qed

lemma nac_point_folder_step_result:
  fixes work_dir k files acc
  defines "d \<equiv> join work_dir [''point_'' @ str_int k]"
  shows "\<exists>files2. nac_point_folder_step work_dir k (files, acc) = Inr (files2, acc @ [d]) \<and>
     files2 d \<noteq> None \<and>
     (\<forall>p. files p \<noteq> None \<longrightarrow> files2 p = files p) \<and>
     (\<forall>p. files p = None \<longrightarrow> files2 p = None \<or> files2 p = Some [])"
proof -
  have pfs: "nac_point_folder_step work_dir k (files, acc) =
      (case (if \<not> files d \<noteq> None then makedirs d files else Inr files) of
         Inl e \<Rightarrow> Inl e
       | Inr files \<Rightarrow> Inr (files, acc @ [d]))"
    unfolding d_def nac_point_folder_step_def Let_def prod.case by (rule refl)
  show ?thesis
  proof (cases "files d = None")
    case True
    then show ?thesis
      by (simp add: pfs makedirs_def)
  next
    case False
    then show ?thesis
      by (simp add: pfs)
  qed
qed

lemma nac_folder_loop:
  "\<exists>files'.
     for_each (nac_point_folder_step work_dir) ks (files, acc) =
       Inr (files', acc @ map (\<lambda>k. join work_dir [''point_'' @ str_int k]) ks) \<and>
     (\<forall>k \<in> set ks. files' (join work_dir [''point_'' @ str_int k]) \<noteq> None) \<and>
     (\<forall>p. files p \<noteq> None \<longrightarrow> files' p = files p) \<and>
     (\<forall>p. files p = None \<longrightarrow> files' p = None \<or> files' p = Some [])"
proof (induction ks arbitrary: files acc)
  case Nil
  then show ?case by simp
next
  case (Cons k ks)
  let ?D = "\<lambda>k. join work_dir [''point_'' @ str_int k]"
  from nac_point_folder_step_result [of work_dir k files acc] obtain f2 where
    step: "nac_point_folder_step work_dir k (files, acc) = Inr (f2, acc @ [?D k])" and
    s1: "f2 (?D k) \<noteq> None" and
    s2: "\<forall>p. files p \<noteq> None \<longrightarrow> f2 p = files p" and
    s3: "\<forall>p. files p = None \<longrightarrow> f2 p = None \<or> f2 p = Some []"
    by blast
  from Cons.IH [of f2 "acc @ [?D k]"] obtain files' where
    run: "for_each (nac_point_folder_step work_dir) ks (f2, acc @ [?D k]) =
            Inr (files', (acc @ [?D k]) @ map ?D ks)" and
    i1: "\<forall>j \<in> set ks. files' (?D j) \<noteq> None" and
    i2: "\<forall>p. f2 p \<noteq> None \<longrightarrow> files' p = f2 p" and
    i3: "\<forall>p. f2 p = None \<longrightarrow> files' p = None \<or> files' p = Some []"
    by blast
  have r: "for_each (nac_point_folder_step work_dir) (k # ks) (files, acc) =
             Inr (files', acc @ map ?D (k # ks))"
    using step run by simp
  have c1: "\<forall>j \<in> set (k # ks). files' (?D j) \<noteq> None"
    using s1 i1 i2 by auto
  have c2: "\<forall>p. files p \<noteq> None \<longrightarrow> files' p = files p"
    using s2 i2 by auto
  have c3: "\<forall>p. files p = None \<longrightarrow> files' p = None \<or> files' p = Some []"
  proof (intro allI impI)
    fix p assume "files p = None"
    with s3 have "f2 p = None \<or> f2 p = Some []" by simp
    then consider "f2 p = None" | "f2 p = Some []" by auto
    then show "files' p = None \<or> files' p = Some []"
    proof cases
      case 1
      with i3 show ?thesis by blast
    next
      case 2
      with i2 show ?thesis by simp
    qed
  qed
  from r c1 c2 c3 show ?case by blast
qed

lemma py_range_points:
  "map (\<lambda>k. join work_dir [''point_'' @ str_int k]) (py_range enum_from (n + enum_from)) =
   map (\<lambda>i. join work_dir [''point_'' @ str_int (enum_from + int i)]) [0 ..< nat n]"
  by (simp add: py_range_def)

text \<open>
  C10, as the claim states it, fails for \<open>create_point_folder\<close> of
  \<^verbatim>\<open>nac/schedule/components.py\<close>: a directory that exists is neither deleted nor created
  afresh, and the data stored in it survives the call.
\<close>

theorem create_point_folder_counterexample:
  "nac_create_point_folder ''/scratch'' 1 0 files_old = Inr (files_old, [''/scratch/point_0'']) \<and>
   files_old ''/scratch/point_0'' = Some [''old.dat'']"
  by (simp add: nac_create_point_folder_def nac_point_folder_step_def py_range_def files_old_def
      join_def join2_def str_int_small Let_def)

text \<open>
  C10, amended: for every \<open>n\<close>, both functions return the \<open>n\<close> paths
  \<open>work_dir/point_{enumerate_from}\<close> to \<open>work_dir/point_{enumerate_from + n - 1}\<close> in
  increasing index order (no path when \<open>n \<le> 0\<close>). The function of \<^verbatim>\<open>nanoqm\<close> first
  deletes a directory that exists, with all of its contents, and creates it afresh: after
  the call every returned directory exists and is empty, nothing is left below one that
  existed before, and what existed outside the returned directories is as it was. The
  function of \<^verbatim>\<open>nac\<close> creates a directory only when it does not exist: after the call
  every returned directory exists, everything that existed before is as it was, so the data
  stored in a point folder survives, and what is new is empty.
\<close>

theorem create_point_folder_result:
  "(\<exists>files'.
      create_point_folder work_dir n enum_from files =
        Inr (files', map (\<lambda>i. join work_dir [''point_'' @ str_int (enum_from + int i)]) [0 ..< nat n]) \<and>
      (\<forall>d \<in> set (map (\<lambda>i. join work_dir [''point_'' @ str_int (enum_from + int i)]) [0 ..< nat n]).
         files' d = Some [] \<and>
         (files d \<noteq> None \<longrightarrow> (\<forall>p. is_under d p \<longrightarrow> files' p = None))) \<and>
      (\<forall>p. files p \<noteq> None \<and>
           (\<forall>d \<in> set (map (\<lambda>i. join work_dir [''point_'' @ str_int (enum_from + int i)]) [0 ..< nat n]).
              p \<noteq> d \<and> \<not> is_under d p) \<longrightarrow>
           files' p = files p)) \<and>
   (\<exists>files'.
      nac_create_point_folder work_dir n enum_from files =
        Inr (files', map (\<lambda>i. join work_dir [''point_'' @ str_int (enum_from + int i)]) [0 ..< nat n]) \<and>
      (\<forall>d \<in> set (map (\<lambda>i. join work_dir [''point_'' @ str_int (enum_from + int i)]) [0 ..< nat n]).
         files' d \<noteq> None) \<and>
      (\<forall>p. files p \<noteq> None \<longrightarrow> files' p = files p) \<and>
      (\<forall>p. files p = None \<longrightarrow> files' p = None \<or> files' p = Some [])) \<and>
   length (map (\<lambda>i. join work_dir [''point_'' @ str_int (enum_from + int i)]) [0 ..< nat n]) = nat n"
proof (intro conjI)
  let ?ks = "py_range enum_from (n + enum_from)"
  let ?D = "\<lambda>k. join work_dir [''point_'' @ str_int k]"
  let ?dirs = "map (\<lambda>i. join work_dir [''point_'' @ str_int (enum_from + int i)]) [0 ..< nat n]"
  have dirs: "map ?D ?ks = ?dirs"
    by (rule py_range_points)
  from nanoqm_folder_loop [of work_dir ?ks files "[]"] obtain files' where
    run: "for_each (point_folder_step work_dir) ?ks (files, []) = Inr (files', [] @ map ?D ?ks)" and
    a: "\<forall>k \<in> set ?ks. files' (?D k) = Some [] \<and>
          (files (?D k) \<noteq> None \<longrightarrow> (\<forall>p. is_under (?D k) p \<longrightarrow> files' p = None))" and
    c: "\<forall>p. files p \<noteq> None \<and> (\<forall>k \<in> set ?ks. p \<noteq> ?D k \<and> \<not> is_under (?D k) p) \<longrightarrow>
          files' p = files p"
    by blast
  have r: "create_point_folder work_dir n enum_from files = Inr (files', ?dirs)"
    using run dirs by (simp add: create_point_folder_def)
  have a': "\<forall>d \<in> set ?dirs. files' d = Some [] \<and>
      (files d \<noteq> None \<longrightarrow> (\<forall>p. is_under d p \<longrightarrow> files' p = None))"
    unfolding dirs [symmetric] using a by simp
  have c': "\<forall>p. files p \<noteq> None \<and> (\<forall>d \<in> set ?dirs. p \<noteq> d \<and> \<not> is_under d p) \<longrightarrow>
      files' p = files p"
    unfolding dirs [symmetric] using c by simp
  from r a' c' show "\<exists>files'.
      create_point_folder work_dir n enum_from files = Inr (files', ?dirs) \<and>
      (\<forall>d \<in> set ?dirs.
         files' d = Some [] \<and>
         (files d \<noteq> None \<longrightarrow> (\<forall>p. is_under d p \<longrightarrow> files' p = None))) \<and>
      (\<forall>p. files p \<noteq> None \<and> (\<forall>d \<in> set ?dirs. p \<noteq> d \<and> \<not> is_under d p) \<longrightarrow>
           files' p = files p)"
    by blast
next
  let ?ks = "py_range enum_from (n + enum_from)"
  let ?D = "\<lambda>k. join work_dir [''point_'' @ str_int k]"
  let ?dirs = "map (\<lambda>i. join work_dir [''point_'' @ str_int (enum_from + int i)]) [0 ..< nat n]"
  have dirs: "map ?D ?ks = ?dirs"
    by (rule py_range_points)
  from nac_folder_loop [of work_dir ?ks files "[]"] obtain files' where
    run: "for_each (nac_point_folder_step work_dir) ?ks (files, []) = Inr (files', [] @ map ?D ?ks)" and
    a: "\<forall>k \<in> set ?ks. files' (?D k) \<noteq> None" and
    b: "\<forall>p. files p \<noteq> None \<longrightarrow> files' p = files p" and
    c: "\<forall>p. files p = None \<longrightarrow> files' p = None \<or> files' p = Some []"
    by blast
  have r: "nac_create_point_folder work_dir n enum_from files = Inr (files', ?dirs)"
    using run dirs by (simp add: nac_create_point_folder_def)
  have a': "\<forall>d \<in> set ?dirs. files' d \<noteq> None"
    unfolding dirs [symmetric] using a by simp
  from r a' b c show "\<exists>files'.
      nac_create_point_folder work_dir n enum_from files = Inr (files', ?dirs) \<and>
      (\<forall>d \<in> set ?dirs. files' d \<noteq> None) \<and>
      (\<forall>p. files p \<noteq> None \<longrightarrow> files' p = files p) \<and>
      (\<forall>p. files p = None \<longrightarrow> files' p = None \<or> files' p = Some [])"
    by blast
next
  show "length (map (\<lambda>i. join work_dir [''point_'' @ str_int (enum_from + int i)]) [0 ..< nat n]) = nat n"
    by simp
qed

theorem create_point_folder_result_witness:
  "(\<exists>files'.
      create_point_folder ''/scratch'' 2 0 files_old =
        Inr (files', [''/scratch/point_0'', ''/scratch/point_1'']) \<and>
      files' ''/scratch/point_0'' = Some [] \<and>
      files' ''/scratch/point_0/sub'' = None \<and>
      files' ''/scratch/point_1'' = Some [] \<and>
      files' ''/scratch'' = Some []) \<and>
   (\<exists>files'.
      nac_create_point_folder ''/scratch'' 2 0 files_old =
        Inr (files', [''/scratch/point_0'', ''/scratch/point_1'']) \<and>
      files' ''/scratch/point_0'' = Some [''old.dat''] \<and>
      files' ''/scratch/point_0/sub'' = Some [''older.dat''] \<and>
      files' ''/scratch/point_1'' = Some [])"
proof -
  let ?dirs = "map (\<lambda>i. join ''/scratch'' [''point_'' @ str_int (0 + int i)]) [0 ..< nat 2]"
  have dirs: "?dirs = [''/scratch/point_0'', ''/scratch/point_1'']"
    by (simp add: numeral_2_eq_2 join_def join2_def str_int_small)
  have old: "files_old ''/scratch/point_0'' = Some [''old.dat'']"
    "files_old ''/scratch/point_0/sub'' = Some [''older.dat'']"
    "files_old ''/scratch/point_1'' = None"
    "files_old ''/scratch'' = Some []"
    by (simp_all add: files_old_def)
  have u: "is_under ''/scratch/point_0'' ''/scratch/point_0/sub''"
    "\<not> is_under ''/scratch/point_0'' ''/scratch''"
    "\<not> is_under ''/scratch/point_1'' ''/scratch''"
    by (simp_all add: is_under_def)
  note t = create_point_folder_result [of "''/scratch''" 2 0 files_old]
  from t obtain f1 where
    n1: "create_point_folder ''/scratch'' 2 0 files_old = Inr (f1, ?dirs)" and
    n2: "\<forall>d \<in> set ?dirs. f1 d = Some [] \<and>
           (files_old d \<noteq> None \<longrightarrow> (\<forall>p. is_under d p \<longrightarrow> f1 p = None))" and
    n3: "\<forall>p. files_old p \<noteq> None \<and> (\<forall>d \<in> set ?dirs. p \<noteq> d \<and> \<not> is_under d p) \<longrightarrow>
           f1 p = files_old p"
    by blast
  from t obtain f2 where
    m1: "nac_create_point_folder ''/scratch'' 2 0 files_old = Inr (f2, ?dirs)" and
    m2: "\<forall>d \<in> set ?dirs. f2 d \<noteq> None" and
    m3: "\<forall>p. files_old p \<noteq> None \<longrightarrow> f2 p = files_old p" and
    m4: "\<forall>p. files_old p = None \<longrightarrow> f2 p = None \<or> f2 p = Some []"
    by blast
  note n2' = n2 [unfolded dirs]
  note n3' = n3 [unfolded dirs]
  note m2' = m2 [unfolded dirs]
  have a1: "f1 ''/scratch/point_0'' = Some []" "f1 ''/scratch/point_1'' = Some []"
    using n2' by simp_all
  have a2: "f1 ''/scratch/point_0/sub'' = None"
    using n2' old u by simp
  have a3: "f1 ''/scratch'' = Some []"
    using n3' [rule_format, of "''/scratch''"] old u by simp
  have b1: "f2 ''/scratch/point_0'' = Some [''old.dat'']"
    "f2 ''/scratch/point_0/sub'' = Some [''older.dat'']"
    using m3 old by simp_all
  have b2: "f2 ''/scratch/point_1'' = Some []"
  proof -
    from m2' have "f2 ''/scratch/point_1'' \<noteq> None" by simp
    moreover from m4 old have "f2 ''/scratch/point_1'' = None \<or> f2 ''/scratch/point_1'' = Some []"
      by simp
    ultimately show ?thesis by auto
  qed
  from n1 a1 a2 a3 have "\<exists>files'.
      create_point_folder ''/scratch'' 2 0 files_old =
        Inr (files', [''/scratch/point_0'', ''/scratch/point_1'']) \<and>
      files' ''/scratch/point_0'' = Some [] \<and>
      files' ''/scratch/point_0/sub'' = None \<and>
      files' ''/scratch/point_1'' = Some [] \<and>
      files' ''/scratch'' = Some []"
    by (simp only: dirs) blast
  moreover from m1 b1 b2 have "\<exists>files'.
      nac_create_point_folder ''/scratch'' 2 0 files_old =
        Inr (files', [''/scratch/point_0'', ''/scratch/point_1'']) \<and>
      files' ''/scratch/point_0'' = Some [''old.dat''] \<and>
      files' ''/scratch/point_0/sub'' = Some [''older.dat''] \<and>
      files' ''/scratch/point_1'' = Some []"
    by (simp only: dirs) blast
  ultimately show ?thesis by (rule conjI)
qed

end
